theory Spec2Isabelle
  imports Complex_Main "HOL-Library.Sublist" "HOL-Library.AList"
begin

section \<open>The solo-ui command line tool\<close>

text \<open>
  The repository holds two versions of the command line tool: \<^verbatim>\<open>packages/cli/src/index.ts\<close>,
  which works on \<^verbatim>\<open>styles/\<close> and \<^verbatim>\<open>components/\<close> in the project root, and a second one
  (\<^verbatim>\<open>part_001\<close>) that works on \<^verbatim>\<open>src/styles/\<close> and \<^verbatim>\<open>src/components/\<close>, rewrites the
  Tailwind configuration and filters the catalog in \<^verbatim>\<open>list\<close>. Functions of the first carry the
  suffix \<open>_cli\<close>, functions of the second the suffix \<open>_src\<close>; functions that are the same
  text in both files are modelled once.

  The file system is the tree of the working directory (\<^verbatim>\<open>process.cwd()\<close>), and a path is
  the list of its segments below it. The fixed paths of the program are all of this kind.
  A component name reaches \<^verbatim>\<open>path.join\<close> as the user typed it, so it may hold slashes,
  \<^verbatim>\<open>.\<close> and \<^verbatim>\<open>..\<close>: \<open>join\<close> resolves them as \<^verbatim>\<open>path.join\<close> does. A path that climbs out of
  the working directory keeps its leading \<^verbatim>\<open>..\<close> segments; the tree holds nothing for such
  a place, and what is claimed about a joined path is claimed for paths that stay inside.
  Symbolic links and permissions are not part of the tree; the one failure of the
  environment that the source handles apart, a failing \<^verbatim>\<open>fs.remove\<close>, is a field of the
  environment.
\<close>

subsection \<open>File system tree\<close>

datatype node = File string | Dir "(string \<times> node) list"

type_synonym dir = "(string \<times> node) list"
type_synonym path = "string list"

fun lookup :: "dir \<Rightarrow> path \<Rightarrow> node option" where
  "lookup es [] = Some (Dir es)"
| "lookup es (n # p) =
     (case map_of es n of
        None \<Rightarrow> None
      | Some (File c) \<Rightarrow> (if p = [] then Some (File c) else None)
      | Some (Dir ds) \<Rightarrow> lookup ds p)"

text \<open>
  \<open>alter p f\<close> replaces what is at \<open>p\<close> by \<open>f\<close> of it (\<open>None\<close>: nothing there, or remove it).
  It leaves the tree alone when the parent of \<open>p\<close> is not a directory; the operations below
  test for that first and raise.
\<close>

fun alter :: "path \<Rightarrow> (node option \<Rightarrow> node option) \<Rightarrow> dir \<Rightarrow> dir" where
  "alter [] f es = es"
| "alter [n] f es =
     (case f (map_of es n) of
        None \<Rightarrow> AList.delete n es
      | Some v \<Rightarrow> AList.update n v es)"
| "alter (n # p) f es =
     (case map_of es n of
        Some (Dir ds) \<Rightarrow> AList.update n (Dir (alter p f ds)) es
      | _ \<Rightarrow> es)"

text \<open>
  \<^verbatim>\<open>mkdir -p\<close>: \<open>None\<close> when a segment of the path is a file, and then nothing was created
  (every segment before it existed already).
\<close>

fun mkdirs :: "path \<Rightarrow> dir \<Rightarrow> dir option" where
  "mkdirs [] es = Some es"
| "mkdirs (n # p) es =
     (case map_of es n of
        None \<Rightarrow> map_option (\<lambda>ds. es @ [(n, Dir ds)]) (mkdirs p [])
      | Some (File c) \<Rightarrow> None
      | Some (Dir ds) \<Rightarrow> map_option (\<lambda>ds'. AList.update n (Dir ds') es) (mkdirs p ds))"

text \<open>
  Recursive copy of fs-extra with its default \<^verbatim>\<open>overwrite: true\<close>: a file replaces a file,
  a directory is merged into a directory entry by entry, a file and a directory in each
  other's place are a conflict, which stops the copy and keeps what was copied so far.
  The first component of the result is \<open>False\<close> on a conflict.
\<close>

fun copyNode :: "node \<Rightarrow> node option \<Rightarrow> bool \<times> node option"
and copyItems :: "dir \<Rightarrow> dir \<Rightarrow> bool \<times> dir" where
  "copyNode (File c) None = (True, Some (File c))"
| "copyNode (File c) (Some (File old)) = (True, Some (File c))"
| "copyNode (File c) (Some (Dir ds)) = (False, Some (Dir ds))"
| "copyNode (Dir es) None =
     (case copyItems es [] of (ok, ds') \<Rightarrow> (ok, Some (Dir ds')))"
| "copyNode (Dir es) (Some (File old)) = (False, Some (File old))"
| "copyNode (Dir es) (Some (Dir ds)) =
     (case copyItems es ds of (ok, ds') \<Rightarrow> (ok, Some (Dir ds')))"
| "copyItems [] ds = (True, ds)"
| "copyItems ((n, x) # es) ds =
     (case copyNode x (map_of ds n) of
        (ok, d) \<Rightarrow>
          (let ds' = (case d of None \<Rightarrow> ds | Some v \<Rightarrow> AList.update n v ds)
           in if ok then copyItems es ds' else (False, ds')))"

text \<open>
  Storing the result of a copy at its destination, which may be the working directory
  itself (the empty path): then the merged entries are the new tree.
\<close>

fun put :: "path \<Rightarrow> (node option \<Rightarrow> node option) \<Rightarrow> dir \<Rightarrow> dir" where
  "put [] f es = (case f (Some (Dir es)) of Some (Dir ds) \<Rightarrow> ds | _ \<Rightarrow> es)"
| "put (n # p) f es = alter (n # p) f es"

subsection \<open>Joined paths\<close>

text \<open>
  \<^verbatim>\<open>path.join(base, name)\<close> for a \<open>base\<close> that is resolved already: the name is cut at its
  slashes, empty segments and \<^verbatim>\<open>.\<close> are dropped, and \<^verbatim>\<open>..\<close> takes the last segment away;
  where there is none to take, the path leaves the working directory and \<^verbatim>\<open>..\<close> is kept.
  The joined path ends in a slash exactly when the name does, and the system then
  resolves it as a directory: a file there is \<^verbatim>\<open>ENOTDIR\<close>.
\<close>

primrec segments :: "string \<Rightarrow> string list" where
  "segments [] = [[]]"
| "segments (c # cs) =
     (if c = CHR ''/'' then [] # segments cs
      else (c # hd (segments cs)) # tl (segments cs))"

fun resolve :: "path \<Rightarrow> string list \<Rightarrow> path" where
  "resolve p [] = p"
| "resolve p (s # ss) =
     (if s = [] \<or> s = ''.'' then resolve p ss
      else if s = ''..''
      then resolve (if p = [] \<or> last p = ''..'' then p @ [''..''] else butlast p) ss
      else resolve (p @ [s]) ss)"

definition join :: "path \<Rightarrow> string \<Rightarrow> path" where
  "join base name = resolve base (segments name)"

definition slashed :: "string \<Rightarrow> bool" where
  "slashed name = (name \<noteq> [] \<and> last name = CHR ''/'')"

text \<open>What \<^verbatim>\<open>stat\<close> finds at a path that may end in a slash.\<close>

definition present :: "dir \<Rightarrow> bool \<Rightarrow> path \<Rightarrow> bool" where
  "present es slash p =
     (case lookup es p of
        None \<Rightarrow> False
      | Some (File c) \<Rightarrow> \<not> slash
      | Some (Dir ds) \<Rightarrow> True)"

fun isFile :: "node option \<Rightarrow> bool" where
  "isFile (Some (File c)) = True"
| "isFile v = False"

subsection \<open>Strings\<close>

text \<open>\<^verbatim>\<open>g.includes(f)\<close>: \<open>f\<close> occurs in \<open>g\<close> as a contiguous substring.\<close>

fun includes_str :: "string \<Rightarrow> string \<Rightarrow> bool" where
  "includes_str [] f = (f = [])"
| "includes_str (c # cs) f = (prefix f (c # cs) \<or> includes_str cs f)"

text \<open>The number of positions of \<open>g\<close> at which \<open>f\<close> occurs.\<close>

fun occurrences :: "string \<Rightarrow> string \<Rightarrow> nat" where
  "occurrences f [] = (if f = [] then 1 else 0)"
| "occurrences f (c # cs) = (if prefix f (c # cs) then 1 else 0) + occurrences f cs"

text \<open>
  The occurrences that a reader counts from left to right, each starting after the end of
  the one before (for a non-empty \<open>f\<close>).
\<close>

fun disjoint_occurrences :: "nat \<Rightarrow> string \<Rightarrow> string \<Rightarrow> nat" where
  "disjoint_occurrences skip f [] = 0"
| "disjoint_occurrences skip f (c # cs) =
     (if skip = 0 \<and> f \<noteq> [] \<and> prefix f (c # cs)
      then Suc (disjoint_occurrences (length f - 1) f cs)
      else disjoint_occurrences (skip - 1) f cs)"

definition showPath :: "path \<Rightarrow> string" where
  "showPath p = concat (map (\<lambda>s. CHR ''/'' # s) p)"

subsection \<open>Errors, the world and the environment\<close>

datatype kind = NotAProject | ComponentNotFound | FsError | GitError | SyntaxError | TypeError

text \<open>
  A thrown value is an \<^verbatim>\<open>Error\<close> with its message, or something else (\<open>NonError\<close>), for which
  the handlers print \<^verbatim>\<open>"Unknown error occurred"\<close>. The \<open>kind\<close> only names where the error
  comes from.
\<close>

datatype error = Error kind string | NonError

fun errorMessage :: "error \<Rightarrow> string" where
  "errorMessage (Error k m) = m"
| "errorMessage NonError = ''Unknown error occurred''"

definition fsError :: "string \<Rightarrow> path \<Rightarrow> error" where
  "fsError code p = Error FsError (code @ '': '' @ showPath p)"

datatype json =
    JNull | JBool bool | JNum real | JStr string
  | JArr "json list" | JObj "(string \<times> json) list"

datatype status = Start string | Stop | Succeed string | Fail string | Info string

datatype printed = Warn string | VersionWarn "json option" "json option" | Log string

text \<open>
  The world a command runs in: the tree of the working directory, what the ora spinner was
  told (in order), what went to the console (in order), the choice lists the prompt was
  opened with, and how many times the remote repository was contacted.
\<close>

record world =
  files :: dir
  spinner :: "status list"
  console :: "printed list"
  prompted :: "string list list"
  clones :: nat

text \<open>
  What the program does not decide: what a clone of the remote repository leaves in its
  destination (or the error of the fetch), which entry the user picks from a list of
  choices, whether \<^verbatim>\<open>fs.remove\<close> fails, and \<^verbatim>\<open>JSON.parse\<close> and
  \<^verbatim>\<open>JSON.stringify\<close> (with two spaces and the final newline of \<^verbatim>\<open>writeJson\<close>).
\<close>

record env =
  remote :: "error + dir"
  select :: "string list \<Rightarrow> string option"
  rm_failure :: "error option"
  parseJson :: "string \<Rightarrow> json option"
  stringifyJson :: "json \<Rightarrow> string"

type_synonym 'a io = "world \<Rightarrow> (error + 'a) \<times> world"

definition ret :: "'a \<Rightarrow> 'a io" where
  "ret x w = (Inr x, w)"

definition throw :: "error \<Rightarrow> 'a io" where
  "throw e w = (Inl e, w)"

definition bnd :: "'a io \<Rightarrow> ('a \<Rightarrow> 'b io) \<Rightarrow> 'b io" where
  "bnd m f w = (case m w of (Inl e, w') \<Rightarrow> (Inl e, w') | (Inr x, w') \<Rightarrow> f x w')"

subsection \<open>The collaborators: fs-extra, simple-git, ora, prompts, console\<close>

definition pathExists :: "path \<Rightarrow> bool io" where
  "pathExists p w = (Inr (lookup (files w) p \<noteq> None), w)"

definition readFile :: "path \<Rightarrow> string io" where
  "readFile p w =
     (case lookup (files w) p of
        None \<Rightarrow> (Inl (fsError ''ENOENT'' p), w)
      | Some (Dir ds) \<Rightarrow> (Inl (fsError ''EISDIR'' p), w)
      | Some (File c) \<Rightarrow> (Inr c, w))"

text \<open>\<^verbatim>\<open>writeFile\<close> and \<^verbatim>\<open>appendFile\<close> create the file when it is missing, not its directory.\<close>

definition writeFile :: "path \<Rightarrow> string \<Rightarrow> unit io" where
  "writeFile p c w =
     (case lookup (files w) p of
        Some (Dir ds) \<Rightarrow> (Inl (fsError ''EISDIR'' p), w)
      | _ \<Rightarrow>
        (case lookup (files w) (butlast p) of
           Some (Dir ds) \<Rightarrow> (Inr (), w\<lparr>files := alter p (\<lambda>old. Some (File c)) (files w)\<rparr>)
         | _ \<Rightarrow> (Inl (fsError ''ENOENT'' p), w)))"

definition appendFile :: "path \<Rightarrow> string \<Rightarrow> unit io" where
  "appendFile p c w =
     (case lookup (files w) p of
        Some (Dir ds) \<Rightarrow> (Inl (fsError ''EISDIR'' p), w)
      | Some (File old) \<Rightarrow>
          (Inr (), w\<lparr>files := alter p (\<lambda>old'. Some (File (old @ c))) (files w)\<rparr>)
      | None \<Rightarrow>
        (case lookup (files w) (butlast p) of
           Some (Dir ds) \<Rightarrow> (Inr (), w\<lparr>files := alter p (\<lambda>old'. Some (File c)) (files w)\<rparr>)
         | _ \<Rightarrow> (Inl (fsError ''ENOENT'' p), w)))"

definition ensureDir :: "path \<Rightarrow> unit io" where
  "ensureDir p w =
     (case mkdirs p (files w) of
        None \<Rightarrow> (Inl (fsError ''EEXIST'' p), w)
      | Some es \<Rightarrow> (Inr (), w\<lparr>files := es\<rparr>))"

definition readdir :: "path \<Rightarrow> string list io" where
  "readdir p w =
     (case lookup (files w) p of
        None \<Rightarrow> (Inl (fsError ''ENOENT'' p), w)
      | Some (File c) \<Rightarrow> (Inl (fsError ''ENOTDIR'' p), w)
      | Some (Dir ds) \<Rightarrow> (Inr (map fst ds), w))"

text \<open>\<^verbatim>\<open>fs.statSync(p).isDirectory()\<close> on a tree: it throws when nothing is at \<open>p\<close>.\<close>

definition statIsDirectory :: "dir \<Rightarrow> path \<Rightarrow> error + bool" where
  "statIsDirectory es p =
     (case lookup es p of
        None \<Rightarrow> Inl (fsError ''ENOENT'' p)
      | Some (File c) \<Rightarrow> Inr False
      | Some (Dir ds) \<Rightarrow> Inr True)"

definition copy :: "path \<Rightarrow> path \<Rightarrow> unit io" where
  "copy src dest w =
     (case lookup (files w) src of
        None \<Rightarrow> (Inl (fsError ''ENOENT'' src), w)
      | Some n \<Rightarrow>
        (case (n, lookup (files w) dest) of
           (Dir es, Some (File c)) \<Rightarrow>
             (Inl (Error FsError ''Cannot overwrite non-directory with directory''), w)
         | (File c, Some (Dir ds)) \<Rightarrow>
             (Inl (Error FsError ''Cannot overwrite directory with non-directory''), w)
         | _ \<Rightarrow>
           (case mkdirs (butlast dest) (files w) of
              None \<Rightarrow> (Inl (fsError ''EEXIST'' (butlast dest)), w)
            | Some es1 \<Rightarrow>
                (let w' = w\<lparr>files := put dest (\<lambda>old. snd (copyNode n old)) es1\<rparr>
                 in if fst (copyNode n (lookup es1 dest)) then (Inr (), w')
                    else (Inl (Error FsError ''Cannot overwrite a file and a directory''), w')))))"

text \<open>
  \<^verbatim>\<open>fs.pathExists\<close> and \<^verbatim>\<open>fs.copy\<close> on joined paths, which end in a slash when \<open>slash\<close>
  holds: \<^verbatim>\<open>pathExists\<close> answers \<^verbatim>\<open>false\<close> on every error of \<^verbatim>\<open>access\<close>, and \<^verbatim>\<open>copy\<close> throws
  the \<^verbatim>\<open>ENOTDIR\<close> of its first \<^verbatim>\<open>stat\<close>.
\<close>

definition pathExists_slash :: "bool \<Rightarrow> path \<Rightarrow> bool io" where
  "pathExists_slash slash p w = (Inr (present (files w) slash p), w)"

definition copy_slash :: "bool \<Rightarrow> path \<Rightarrow> path \<Rightarrow> unit io" where
  "copy_slash slash src dest w =
     (if slash \<and> isFile (lookup (files w) src) then (Inl (fsError ''ENOTDIR'' src), w)
      else if slash \<and> isFile (lookup (files w) dest) then (Inl (fsError ''ENOTDIR'' dest), w)
      else copy src dest w)"

text \<open>
  \<^verbatim>\<open>fs.remove\<close> (\<^verbatim>\<open>rm -rf\<close>): removing what is not there is no error. A failure of the
  environment leaves the tree as it is.
\<close>

definition remove :: "env \<Rightarrow> path \<Rightarrow> unit io" where
  "remove env p w =
     (case rm_failure env of
        Some e \<Rightarrow> (Inl e, w)
      | None \<Rightarrow> (Inr (), w\<lparr>files := alter p (\<lambda>old. None) (files w)\<rparr>))"

text \<open>
  \<^verbatim>\<open>git clone url dest --depth 1\<close>: git refuses a destination that exists and is not an
  empty directory, before it contacts the remote; otherwise it creates the destination
  (and the directories above it) and fills it.
\<close>

definition git_clone :: "env \<Rightarrow> path \<Rightarrow> unit io" where
  "git_clone env dest w =
     (if lookup (files w) dest \<noteq> None \<and> lookup (files w) dest \<noteq> Some (Dir [])
      then (Inl (Error GitError
              (''fatal: destination path '' @ showPath dest
                 @ '' already exists and is not an empty directory.'')), w)
      else
        (case remote env of
           Inl e \<Rightarrow> (Inl e, w\<lparr>clones := Suc (clones w)\<rparr>)
         | Inr repo \<Rightarrow>
           (case mkdirs (butlast dest) (files w) of
              None \<Rightarrow> (Inl (Error GitError ''fatal: could not create leading directories''), w)
            | Some es1 \<Rightarrow>
                (Inr (), w\<lparr>files := alter dest (\<lambda>old. Some (Dir repo)) es1,
                            clones := Suc (clones w)\<rparr>))))"

definition readJson :: "env \<Rightarrow> path \<Rightarrow> json io" where
  "readJson env p =
     bnd (readFile p) (\<lambda>text.
       case parseJson env text of
         None \<Rightarrow> throw (Error SyntaxError ''Unexpected token in JSON'')
       | Some j \<Rightarrow> ret j)"

definition writeJson :: "env \<Rightarrow> path \<Rightarrow> json \<Rightarrow> unit io" where
  "writeJson env p j = writeFile p (stringifyJson env j)"

definition spun :: "status \<Rightarrow> world \<Rightarrow> world" where
  "spun s w = w\<lparr>spinner := spinner w @ [s]\<rparr>"

definition spin :: "status \<Rightarrow> unit io" where
  "spin s w = (Inr (), spun s w)"

definition said :: "printed \<Rightarrow> world \<Rightarrow> world" where
  "said out w = w\<lparr>console := console w @ [out]\<rparr>"

definition say :: "printed \<Rightarrow> unit io" where
  "say out w = (Inr (), said out w)"

text \<open>
  The select prompt returns one of the choices it was given, or nothing when the user
  cancels (or when there is nothing to choose from).
\<close>

definition prompts :: "env \<Rightarrow> string list \<Rightarrow> string option io" where
  "prompts env choices w =
     (Inr (case select env choices of
             None \<Rightarrow> None
           | Some c \<Rightarrow> (if c \<in> set choices then Some c else None)),
      w\<lparr>prompted := prompted w @ [choices]\<rparr>)"

subsection \<open>JavaScript values read from JSON\<close>

text \<open>
  The truthiness of a property: \<^verbatim>\<open>!v\<close> holds when \<open>truthy v\<close> does not. An absent property
  is \<^verbatim>\<open>undefined\<close>, here \<open>None\<close>.
\<close>

fun truthy :: "json option \<Rightarrow> bool" where
  "truthy None = False"
| "truthy (Some JNull) = False"
| "truthy (Some (JBool b)) = b"
| "truthy (Some (JNum x)) = (x \<noteq> 0)"
| "truthy (Some (JStr s)) = (s \<noteq> [])"
| "truthy (Some (JArr xs)) = True"
| "truthy (Some (JObj es)) = True"

fun digit :: "nat \<Rightarrow> char" where
  "digit n = (''0123456789'' ! (n mod 10))"

fun showNat :: "nat \<Rightarrow> string" where
  "showNat n = (if n < 10 then [digit n] else showNat (n div 10) @ [digit n])"

fun indexed :: "nat \<Rightarrow> json list \<Rightarrow> (string \<times> json) list" where
  "indexed i [] = []"
| "indexed i (x # xs) = (showNat i, x) # indexed (Suc i) xs"

text \<open>
  The own enumerable properties that an object spread \<^verbatim>\<open>{...v}\<close> copies: the entries of an
  object, the elements of an array and the characters of a string under their indices,
  nothing for the other values.
\<close>

fun ownEntries :: "json \<Rightarrow> (string \<times> json) list" where
  "ownEntries (JObj es) = es"
| "ownEntries (JArr xs) = indexed 0 xs"
| "ownEntries (JStr s) = indexed 0 (map (\<lambda>c. JStr [c]) s)"
| "ownEntries v = []"

text \<open>
  \<^verbatim>\<open>v.name\<close> for a name that no prototype defines: reading a property of \<^verbatim>\<open>null\<close> throws.
\<close>

fun getProp :: "json \<Rightarrow> string \<Rightarrow> error + json option" where
  "getProp JNull name = Inl (Error TypeError ''Cannot read properties of null'')"
| "getProp (JObj es) name = Inr (map_of es name)"
| "getProp v name = Inr None"

text \<open>\<^verbatim>\<open>a !== b\<close>: two objects or arrays that were parsed apart are never the same object.\<close>

fun strictNeq :: "json option \<Rightarrow> json option \<Rightarrow> bool" where
  "strictNeq None None = False"
| "strictNeq (Some (JObj es)) b = True"
| "strictNeq (Some (JArr xs)) b = True"
| "strictNeq a b = (a \<noteq> b)"

definition lift :: "error + 'a \<Rightarrow> 'a io" where
  "lift r w = (r, w)"

subsection \<open>The functions shared by both files\<close>

abbreviation TEMP_DIR :: path where
  "TEMP_DIR \<equiv> [''.solo-ui-temp'']"

definition checkProjectConfig :: "unit io" where
  "checkProjectConfig =
     bnd (pathExists [''package.json'']) (\<lambda>hasPackageJson.
       if \<not> hasPackageJson
       then throw (Error NotAProject
              ''No package.json found. Please run this command in a Node.js project.'')
       else ret ())"

definition checkComponentDependencies :: "string \<Rightarrow> unit io" where
  "checkComponentDependencies component =
     (let componentPath = join (TEMP_DIR @ [''components'']) component;
          typesPath = componentPath @ [''types.ts'']
      in bnd (pathExists typesPath) (\<lambda>found.
           if found then bnd (readFile typesPath) (\<lambda>content. ret ()) else ret ()))"

text \<open>
  \<^verbatim>\<open>mergeStyles\<close> is the same in both files but for the path of the global stylesheet,
  which is the first argument here.
\<close>

definition mergeStyles :: "path \<Rightarrow> path \<Rightarrow> unit io" where
  "mergeStyles globalStylePath componentPath =
     (let componentStylePath = componentPath @ [''styles.css'']
      in bnd (pathExists componentStylePath) (\<lambda>found.
           if found
           then bnd (readFile componentStylePath) (\<lambda>componentStyles.
                bnd (readFile globalStylePath) (\<lambda>globalStyles.
                  if \<not> includes_str globalStyles componentStyles
                  then appendFile globalStylePath (''\<newline>'' @ componentStyles)
                  else ret ()))
           else ret ()))"

definition cleanupTemp :: "env \<Rightarrow> world \<Rightarrow> world" where
  "cleanupTemp env w =
     (case bnd (pathExists TEMP_DIR) (\<lambda>found.
             if found then remove env TEMP_DIR else ret ()) w of
        (Inr x, w') \<Rightarrow> w'
      | (Inl e, w') \<Rightarrow> said (Warn ''Failed to clean up temporary directory'') w')"

text \<open>
  A name of a directory entry: one non-empty segment, not \<^verbatim>\<open>.\<close> or \<^verbatim>\<open>..\<close>. Joining it to
  a path appends it.
\<close>

definition valid_name :: "string \<Rightarrow> bool" where
  "valid_name c = (c \<noteq> [] \<and> c \<noteq> ''.'' \<and> c \<noteq> ''..'' \<and> CHR ''/'' \<notin> set c)"

subsection \<open>Updating the manifest (both files, the same lines of \<^verbatim>\<open>init\<close>)\<close>

text \<open>
  The lines between \<^verbatim>\<open>readJson\<close> and \<^verbatim>\<open>writeJson\<close>, on the entries of the manifest object:
  an absent or falsy \<^verbatim>\<open>dependencies\<close> becomes \<^verbatim>\<open>{}\<close>, an absent or falsy
  \<^verbatim>\<open>devDependencies\<close> becomes \<^verbatim>\<open>{}\<close>, then \<^verbatim>\<open>devDependencies\<close> becomes a new object: its
  spread, followed by the three fixed entries.
\<close>

definition manifestFields :: "(string \<times> json) list \<Rightarrow> (string \<times> json) list" where
  "manifestFields m =
     (let m1 = (if \<not> truthy (map_of m ''dependencies'')
                then AList.update ''dependencies'' (JObj []) m else m);
          m2 = (if \<not> truthy (map_of m1 ''devDependencies'')
                then AList.update ''devDependencies'' (JObj []) m1 else m1);
          dev = (case map_of m2 ''devDependencies'' of None \<Rightarrow> [] | Some v \<Rightarrow> ownEntries v)
      in AList.update ''devDependencies''
           (JObj (AList.update ''autoprefixer'' (JStr ''^10.4.0'')
                   (AList.update ''postcss'' (JStr ''^8.4.0'')
                     (AList.update ''tailwindcss'' (JStr ''^3.4.0'') dev)))) m2)"

text \<open>
  On what \<^verbatim>\<open>JSON.parse\<close> may return: an object is updated; properties set on an array are
  not written by \<^verbatim>\<open>JSON.stringify\<close>; \<^verbatim>\<open>null\<close> has no properties to read, and a property
  cannot be created on a number, a string or a boolean (the module is strict code).
\<close>

fun updatePackageJson :: "json \<Rightarrow> error + json" where
  "updatePackageJson (JObj m) = Inr (JObj (manifestFields m))"
| "updatePackageJson (JArr xs) = Inr (JArr xs)"
| "updatePackageJson JNull = Inl (Error TypeError ''Cannot read properties of null'')"
| "updatePackageJson v = Inl (Error TypeError ''Cannot create property dependencies'')"

text \<open>The four lines printed after a successful \<^verbatim>\<open>init\<close>; the second names the stylesheet.\<close>

definition nextSteps :: "string \<Rightarrow> unit io" where
  "nextSteps importLine =
     bnd (say (Log ''\<newline>Next steps:'')) (\<lambda>u1.
     bnd (say (Log ''1. Run 'npm install' or 'pnpm install' to install dependencies'')) (\<lambda>u2.
     bnd (say (Log importLine)) (\<lambda>u3.
     say (Log (''3. Start using solo-ui components with 'solo-ui add <component>''
               @ [CHR 0x27])))))"

subsection \<open>\<^verbatim>\<open>packages/cli/src/index.ts\<close>\<close>

definition checkVersion :: "env \<Rightarrow> unit io" where
  "checkVersion env w =
     (case bnd (readJson env (TEMP_DIR @ [''package.json''])) (\<lambda>packageJson.
           bnd (readJson env [''package.json'']) (\<lambda>localPackageJson.
           bnd (lift (getProp packageJson ''version'')) (\<lambda>remoteVersion.
           bnd (lift (getProp localPackageJson ''version'')) (\<lambda>localVersion.
             if strictNeq remoteVersion localVersion
             then say (VersionWarn localVersion remoteVersion)
             else ret ())))) w of
        (Inr x, w') \<Rightarrow> (Inr (), w')
      | (Inl e, w') \<Rightarrow> say (Warn ''Unable to check versions'') w')"

abbreviation globalStylePath_cli :: path where
  "globalStylePath_cli \<equiv> [''styles'', ''globals.css'']"

definition add_cli_try :: "env \<Rightarrow> string \<Rightarrow> unit io" where
  "add_cli_try env component =
     bnd checkProjectConfig (\<lambda>u1.
     bnd (ensureDir TEMP_DIR) (\<lambda>u2.
     bnd (git_clone env TEMP_DIR) (\<lambda>u3.
     bnd (checkVersion env) (\<lambda>u4.
     bnd (checkComponentDependencies component) (\<lambda>u5.
     let componentPath = join (TEMP_DIR @ [''components'']) component;
         targetPath = join [''components''] component
     in bnd (pathExists_slash (slashed component) componentPath) (\<lambda>found.
          if \<not> found
          then throw (Error ComponentNotFound (''Component '' @ component @ '' not found''))
          else
            bnd (copy_slash (slashed component) componentPath targetPath) (\<lambda>u6.
            bnd (mergeStyles globalStylePath_cli componentPath) (\<lambda>u7.
            spin (Succeed (''Successfully added '' @ component @ '' component''))))))))))"

definition add_cli :: "env \<Rightarrow> string \<Rightarrow> world \<Rightarrow> world" where
  "add_cli env component w =
     cleanupTemp env
       (case add_cli_try env component (spun (Start ''Fetching component...'') w) of
          (Inr x, w') \<Rightarrow> w'
        | (Inl e, w') \<Rightarrow> spun (Fail (''Failed to add component: '' @ errorMessage e)) w')"

definition init_cli_try :: "env \<Rightarrow> unit io" where
  "init_cli_try env =
     bnd checkProjectConfig (\<lambda>u1.
     bnd (ensureDir [''styles'']) (\<lambda>u2.
     bnd (ensureDir [''components'']) (\<lambda>u3.
     bnd (git_clone env TEMP_DIR) (\<lambda>u4.
     bnd (checkVersion env) (\<lambda>u5.
     bnd (copy (TEMP_DIR @ [''packages'', ''components'', ''styles'', ''globals.css''])
               [''styles'', ''globals.css'']) (\<lambda>u6.
     bnd (copy (TEMP_DIR @ [''tailwind.config.js'']) [''tailwind.config.js'']) (\<lambda>u7.
     bnd (copy (TEMP_DIR @ [''postcss.config.js'']) [''postcss.config.js'']) (\<lambda>u8.
     bnd (readJson env [''package.json'']) (\<lambda>packageJson.
     bnd (lift (updatePackageJson packageJson)) (\<lambda>updated.
     bnd (writeJson env [''package.json''] updated) (\<lambda>u9.
     bnd (spin (Succeed ''Successfully initialized solo-ui!'')) (\<lambda>u10.
     nextSteps
       ''2. Import 'styles/globals.css' in your main application file''))))))))))))"

definition init_cli :: "env \<Rightarrow> world \<Rightarrow> world" where
  "init_cli env w =
     cleanupTemp env
       (case init_cli_try env (spun (Start ''Initializing solo-ui...'') w) of
          (Inr x, w') \<Rightarrow> w'
        | (Inl e, w') \<Rightarrow> spun (Fail (''Failed to initialize: '' @ errorMessage e)) w')"

text \<open>
  \<^verbatim>\<open>if (component)\<close> after the prompt: nothing chosen and the empty string are both falsy.
\<close>

definition list_cli_try :: "env \<Rightarrow> unit io" where
  "list_cli_try env =
     bnd (ensureDir TEMP_DIR) (\<lambda>u1.
     bnd (git_clone env TEMP_DIR) (\<lambda>u2.
     let componentsDir = TEMP_DIR @ [''packages'', ''components'']
     in bnd (readdir componentsDir) (\<lambda>components.
        bnd (spin Stop) (\<lambda>u3.
        bnd (prompts env components) (\<lambda>choice.
          case choice of
            None \<Rightarrow> ret ()
          | Some component \<Rightarrow>
              if component = [] then ret ()
              else
                (let componentPath = join (TEMP_DIR @ [''packages'', ''components'']) component;
                     targetPath = join [''components''] component
                 in bnd (copy_slash (slashed component) componentPath targetPath) (\<lambda>u4.
                    bnd (mergeStyles globalStylePath_cli componentPath) (\<lambda>u5.
                    spin (Succeed (''Successfully added '' @ component @ '' component''))))))))))"

definition list_cli :: "env \<Rightarrow> world \<Rightarrow> world" where
  "list_cli env w =
     cleanupTemp env
       (case list_cli_try env (spun (Start ''Fetching components...'') w) of
          (Inr x, w') \<Rightarrow> w'
        | (Inl e, w') \<Rightarrow> spun (Fail (''Failed to fetch components: '' @ errorMessage e)) w')"

subsection \<open>The second file, working below \<^verbatim>\<open>src/\<close>\<close>

abbreviation globalStylePath_src :: path where
  "globalStylePath_src \<equiv> [''src'', ''styles'', ''globals.css'']"

text \<open>
  \<^verbatim>\<open>config.replace(/content:\s*\[[^]*?\]/, ...)\<close>: the first place where \<^verbatim>\<open>content:\<close>, any
  white space and an opening bracket are followed by a closing bracket somewhere; the text
  up to the first closing bracket is replaced. White space is the ASCII white space.
\<close>

definition isSpace :: "char \<Rightarrow> bool" where
  "isSpace c = (c \<in> set [CHR '' '', CHR 0x09, CHR 0x0A, CHR 0x0B, CHR 0x0C, CHR 0x0D])"

fun afterBracket :: "string \<Rightarrow> string option" where
  "afterBracket [] = None"
| "afterBracket (c # cs) = (if c = CHR '']'' then Some cs else afterBracket cs)"

definition matchContent :: "string \<Rightarrow> string option" where
  "matchContent s =
     (if prefix ''content:'' s
      then (case dropWhile isSpace (drop 8 s) of
              [] \<Rightarrow> None
            | c # r \<Rightarrow> (if c = CHR ''['' then afterBracket r else None))
      else None)"

fun replaceContent :: "string \<Rightarrow> string" where
  \<open>replaceContent [] = []\<close>
| \<open>replaceContent (c # cs) =
     (case matchContent (c # cs) of
        Some rest \<Rightarrow> ''content: ["./src/**/*.{js,ts,jsx,tsx}"]'' @ rest
      | None \<Rightarrow> c # replaceContent cs)\<close>

definition modifyTailwindConfig :: "path \<Rightarrow> unit io" where
  "modifyTailwindConfig configPath =
     bnd (readFile configPath) (\<lambda>config.
     writeFile configPath (replaceContent config))"

definition add_src_try :: "env \<Rightarrow> string \<Rightarrow> unit io" where
  "add_src_try env component =
     bnd checkProjectConfig (\<lambda>u1.
     bnd (ensureDir TEMP_DIR) (\<lambda>u2.
     bnd (ensureDir [''src'', ''components'']) (\<lambda>u3.
     bnd (git_clone env TEMP_DIR) (\<lambda>u4.
     bnd (checkComponentDependencies component) (\<lambda>u5.
     let componentPath = join (TEMP_DIR @ [''packages'', ''components'']) component;
         targetPath = join [''src'', ''components''] component
     in bnd (pathExists_slash (slashed component) componentPath) (\<lambda>found.
          if \<not> found
          then throw (Error ComponentNotFound
                 (''Component '' @ component @ '' not found in solo-ui components''))
          else
            bnd (copy_slash (slashed component) componentPath targetPath) (\<lambda>u6.
            bnd (mergeStyles globalStylePath_src componentPath) (\<lambda>u7.
            spin (Succeed (''Successfully added '' @ component
                             @ '' component to src/components/'' @ component))))))))))"

definition add_src :: "env \<Rightarrow> string \<Rightarrow> world \<Rightarrow> world" where
  "add_src env component w =
     cleanupTemp env
       (case add_src_try env component (spun (Start ''Fetching component...'') w) of
          (Inr x, w') \<Rightarrow> w'
        | (Inl e, w') \<Rightarrow> spun (Fail (''Failed to add component: '' @ errorMessage e)) w')"

definition init_src_try :: "env \<Rightarrow> unit io" where
  "init_src_try env =
     bnd checkProjectConfig (\<lambda>u1.
     bnd (ensureDir [''src'', ''styles'']) (\<lambda>u2.
     bnd (ensureDir [''src'', ''components'']) (\<lambda>u3.
     bnd (git_clone env TEMP_DIR) (\<lambda>u4.
     bnd (copy (TEMP_DIR @ [''packages'', ''components'', ''styles'', ''globals.css''])
               [''src'', ''styles'', ''globals.css'']) (\<lambda>u5.
     bnd (copy (TEMP_DIR @ [''tailwind.config.js'']) [''tailwind.config.js'']) (\<lambda>u6.
     bnd (modifyTailwindConfig [''tailwind.config.js'']) (\<lambda>u7.
     bnd (copy (TEMP_DIR @ [''postcss.config.js'']) [''postcss.config.js'']) (\<lambda>u8.
     bnd (readJson env [''package.json'']) (\<lambda>packageJson.
     bnd (lift (updatePackageJson packageJson)) (\<lambda>updated.
     bnd (writeJson env [''package.json''] updated) (\<lambda>u9.
     bnd (spin (Succeed ''Successfully initialized solo-ui!'')) (\<lambda>u10.
     nextSteps
       ''2. Import 'src/styles/globals.css' in your main application file''))))))))))))"

definition init_src :: "env \<Rightarrow> world \<Rightarrow> world" where
  "init_src env w =
     cleanupTemp env
       (case init_src_try env (spun (Start ''Initializing solo-ui...'') w) of
          (Inr x, w') \<Rightarrow> w'
        | (Inl e, w') \<Rightarrow> spun (Fail (''Failed to initialize: '' @ errorMessage e)) w')"

text \<open>The callback of \<^verbatim>\<open>items.filter\<close>; \<^verbatim>\<open>statSync\<close> in it may throw.\<close>

definition isComponent :: "dir \<Rightarrow> path \<Rightarrow> string \<Rightarrow> error + bool" where
  "isComponent es componentsDir name =
     (if prefix ''.'' name then Inr False
      else if name \<in> set [''styles'', ''package.json'', ''node_modules''] then Inr False
      else statIsDirectory es (componentsDir @ [name]))"

fun filterE :: "('a \<Rightarrow> error + bool) \<Rightarrow> 'a list \<Rightarrow> error + 'a list" where
  "filterE keep [] = Inr []"
| "filterE keep (x # xs) =
     (case keep x of
        Inl e \<Rightarrow> Inl e
      | Inr b \<Rightarrow>
        (case filterE keep xs of
           Inl e \<Rightarrow> Inl e
         | Inr ys \<Rightarrow> Inr (if b then x # ys else ys)))"

definition list_src_try :: "env \<Rightarrow> unit io" where
  "list_src_try env =
     bnd (ensureDir TEMP_DIR) (\<lambda>u1.
     bnd (git_clone env TEMP_DIR) (\<lambda>u2.
     let componentsDir = TEMP_DIR @ [''packages'', ''components'']
     in bnd (readdir componentsDir) (\<lambda>items.
        bnd (\<lambda>w. (filterE (isComponent (files w) componentsDir) items, w)) (\<lambda>components.
        bnd (spin Stop) (\<lambda>u3.
          if length components = 0
          then spin (Info ''No components available'')
          else
            bnd (prompts env components) (\<lambda>choice.
              case choice of
                None \<Rightarrow> ret ()
              | Some component \<Rightarrow>
                  if component = [] then ret ()
                  else
                    bnd (ensureDir [''src'', ''components'']) (\<lambda>u4.
                    let componentPath = join (TEMP_DIR @ [''packages'', ''components'']) component;
                        targetPath = join [''src'', ''components''] component
                    in bnd (copy_slash (slashed component) componentPath targetPath) (\<lambda>u5.
                       bnd (mergeStyles globalStylePath_src componentPath) (\<lambda>u6.
                       spin (Succeed (''Successfully added '' @ component
                                        @ '' component to src/components/'' @ component)))))))))))"

definition list_src :: "env \<Rightarrow> world \<Rightarrow> world" where
  "list_src env w =
     cleanupTemp env
       (case list_src_try env (spun (Start ''Fetching components...'') w) of
          (Inr x, w') \<Rightarrow> w'
        | (Inl e, w') \<Rightarrow> spun (Fail (''Failed to fetch components: '' @ errorMessage e)) w')"

section \<open>Example projects\<close>

definition fresh :: "dir \<Rightarrow> world" where
  "fresh es = \<lparr>files = es, spinner = [], console = [], prompted = [], clones = 0\<rparr>"

abbreviation button_path :: path where
  "button_path \<equiv> [''.solo-ui-temp'', ''components'', ''button'']"

text \<open>A stylesheet without a final newline, and a fragment that is the same rule with one.\<close>

definition unterminated_sheet :: world where
  "unterminated_sheet =
     fresh [(''styles'', Dir [(''globals.css'', File ''a{}'')]),
            (''.solo-ui-temp'', Dir [(''components'',
               Dir [(''button'', Dir [(''styles.css'', File ''a{}\<newline>'')])])])]"

definition styled_project :: world where
  "styled_project =
     fresh [(''styles'', Dir [(''globals.css'', File ''a{}'')]),
            (''.solo-ui-temp'', Dir [(''components'',
               Dir [(''button'', Dir [(''styles.css'', File ''b{}'')])])])]"

text \<open>A fetched repository with one component, the shared styles and the configuration.\<close>

definition catalog :: dir where
  "catalog =
     [(''packages'', Dir [(''components'', Dir
         [(''button'', Dir [(''index.tsx'', File ''export {}''), (''styles.css'', File ''.btn{}'')]),
          (''styles'', Dir [(''globals.css'', File ''body{}'')]),
          (''package.json'', File ''{}'')])]),
      (''tailwind.config.js'', File ''content: []''),
      (''postcss.config.js'', File ''plugins''),
      (''package.json'', File ''{}'')]"

text \<open>
  An environment in which the repository is fetched, the user chooses nothing, and JSON is
  not parsed; and the same with a scratch directory that cannot be removed.
\<close>

definition online :: "dir \<Rightarrow> env" where
  "online repo =
     \<lparr>remote = Inr repo, select = (\<lambda>choices. None), rm_failure = None,
      parseJson = (\<lambda>text. None), stringifyJson = (\<lambda>j. [])\<rparr>"

definition locked :: "dir \<Rightarrow> env" where
  "locked repo = (online repo)\<lparr>rm_failure := Some (fsError ''EPERM'' TEMP_DIR)\<rparr>"

definition node_project :: world where
  "node_project = fresh [(''package.json'', File ''{}'')]"

text \<open>An environment in which the fetch fails, and a directory that is not a project.\<close>

definition offline :: env where
  "offline =
     \<lparr>remote = Inl (Error GitError ''fatal: unable to access the remote repository''),
      select = (\<lambda>choices. None), rm_failure = None,
      parseJson = (\<lambda>text. None), stringifyJson = (\<lambda>j. [])\<rparr>"

definition empty_directory :: world where
  "empty_directory = fresh []"

text \<open>A project in which a killed run has left a partial clone behind.\<close>

definition interrupted_project :: world where
  "interrupted_project =
     fresh [(''package.json'', File ''{}''),
            (''.solo-ui-temp'', Dir [(''HEAD'', File ''ref: refs/heads/main'')])]"

text \<open>
  A project whose manifest has the text \<^verbatim>\<open>app\<close>, and an environment that parses one given
  text to one given value and writes a manifest as the list of its field names.
\<close>

definition field_names :: "json \<Rightarrow> string" where
  "field_names j = (case j of JObj m \<Rightarrow> concat (map (\<lambda>kv. fst kv @ '';'') m) | _ \<Rightarrow> [])"

definition reading :: "string \<Rightarrow> json \<Rightarrow> dir \<Rightarrow> env" where
  "reading text j repo =
     \<lparr>remote = Inr repo, select = (\<lambda>choices. None), rm_failure = None,
      parseJson = (\<lambda>t. if t = text then Some j else None), stringifyJson = field_names\<rparr>"

definition app_project :: world where
  "app_project = fresh [(''package.json'', File ''app'')]"

text \<open>A project that was never initialised, with the fetched copy in the scratch directory.\<close>

definition fetched_project :: world where
  "fetched_project = fresh [(''package.json'', File ''{}''), (''.solo-ui-temp'', Dir catalog)]"

text \<open>
  A fetched repository whose catalog root holds a hidden file, a dependency cache, a
  manifest and the shared styles beside one component; and one whose catalog root holds no
  component at all.
\<close>

definition cluttered_catalog :: dir where
  "cluttered_catalog =
     [(''packages'', Dir [(''components'', Dir
         [(''.DS_Store'', File ''Bud1''),
          (''button'', Dir [(''index.tsx'', File ''export {}'')]),
          (''node_modules'', Dir []),
          (''package.json'', File ''{}''),
          (''styles'', Dir [(''globals.css'', File ''body{}'')])])])]"

definition bare_catalog :: dir where
  "bare_catalog =
     [(''packages'', Dir [(''components'', Dir
         [(''styles'', Dir [(''globals.css'', File ''body{}'')]),
          (''package.json'', File ''{}'')])]),
      (''package.json'', File ''{}'')]"

text \<open>
  A fetched repository that still has a top-level \<^verbatim>\<open>components/\<close>, in which \<^verbatim>\<open>types.ts\<close>
  of \<^verbatim>\<open>card\<close> is a directory, and no \<^verbatim>\<open>card\<close> in its catalog.
\<close>

definition legacy_catalog :: dir where
  "legacy_catalog =
     [(''components'', Dir [(''card'', Dir [(''types.ts'', Dir [])])]),
      (''packages'', Dir [(''components'', Dir
         [(''button'', Dir [(''index.tsx'', File ''export {}'')])])]),
      (''package.json'', File ''{}'')]"

section \<open>Assertions about a run\<close>

text \<open>
  \<open>hoare P m S E\<close>: from a world that satisfies \<open>P\<close>, the action \<open>m\<close> returns \<open>x\<close> in a world
  that satisfies \<open>S x\<close>, or throws \<open>e\<close> in a world that satisfies \<open>E e\<close>.
\<close>

definition hoare ::
  "(world \<Rightarrow> bool) \<Rightarrow> 'a io \<Rightarrow> ('a \<Rightarrow> world \<Rightarrow> bool) \<Rightarrow> (error \<Rightarrow> world \<Rightarrow> bool) \<Rightarrow> bool" where
  "hoare P m S E =
     (\<forall>w. P w \<longrightarrow>
        (\<forall>x. fst (m w) = Inr x \<longrightarrow> S x (snd (m w)))
      \<and> (\<forall>e. fst (m w) = Inl e \<longrightarrow> E e (snd (m w))))"

text \<open>
  The scratch directory after a command: it is gone when \<^verbatim>\<open>fs.remove\<close> does not fail, and
  when it is still there the last thing on the console is the warning of \<^verbatim>\<open>cleanupTemp\<close>.
\<close>

definition cleaned :: "env \<Rightarrow> world \<Rightarrow> bool" where
  "cleaned env w =
     ((rm_failure env = None \<longrightarrow> lookup (files w) TEMP_DIR = None)
    \<and> (lookup (files w) TEMP_DIR \<noteq> None \<longrightarrow>
          last (console w) = Warn ''Failed to clean up temporary directory''))"

text \<open>The error of \<^verbatim>\<open>git clone\<close> into a scratch directory that is not empty.\<close>

definition refusal :: error where
  "refusal = Error GitError
     ''fatal: destination path /.solo-ui-temp already exists and is not an empty directory.''"

text \<open>
  The outcome \<open>r\<close> of a pipeline that started in \<open>w\<close> with the stale content \<open>ds\<close> in the
  scratch directory: it failed, the remote was not contacted, the stale content is still
  there.
\<close>

definition stale_kept :: "dir \<Rightarrow> world \<Rightarrow> (error + unit) \<times> world \<Rightarrow> bool" where
  "stale_kept ds w r =
     ((\<exists>e. fst r = Inl e) \<and> clones (snd r) = clones w
      \<and> lookup (files (snd r)) TEMP_DIR = Some (Dir ds))"

text \<open>
  The entries of \<^verbatim>\<open>devDependencies\<close> that the manifest had before \<^verbatim>\<open>init\<close>, as the spread
  copies them: none when the field is absent or falsy.
\<close>

definition devEntries :: "(string \<times> json) list \<Rightarrow> (string \<times> json) list" where
  "devEntries m =
     (case map_of m ''devDependencies'' of
        None \<Rightarrow> []
      | Some v \<Rightarrow> (if truthy (Some v) then ownEntries v else []))"

text \<open>
  No choice is a hidden entry, the styles directory, the manifest or the dependency cache.
\<close>

definition components_only :: "string list \<Rightarrow> bool" where
  "components_only choices =
     (\<forall>name \<in> set choices.
        \<not> prefix ''.'' name \<and> name \<noteq> ''styles'' \<and> name \<noteq> ''package.json''
        \<and> name \<noteq> ''node_modules'')"

text \<open>
  The place inside the fetched copy to which a name leads from the directory \<open>base\<close> of the
  fetched copy, when it stays inside the fetched copy.
\<close>

definition reached :: "path \<Rightarrow> string \<Rightarrow> path option" where
  "reached base name =
     (case join (TEMP_DIR @ base) name of
        [] \<Rightarrow> None
      | n # r \<Rightarrow> if n = ''.solo-ui-temp'' then Some r else None)"

text \<open>A file is in the way of \<^verbatim>\<open>src/components\<close>.\<close>

definition blocked :: "dir \<Rightarrow> bool" where
  "blocked es = (isFile (lookup es [''src'']) \<or> isFile (lookup es [''src'', ''components'']))"

text \<open>
  The error with which \<^verbatim>\<open>add\<close> of the second file fails for a name that leads to nothing
  in the catalog, in the project tree \<open>es\<close>, when the name leads to the place \<open>t\<close> below
  \<^verbatim>\<open>components/\<close> of the fetched copy.
\<close>

definition add_src_failure :: "dir \<Rightarrow> dir \<Rightarrow> path \<Rightarrow> string \<Rightarrow> error" where
  "add_src_failure es repo t component =
     (if blocked es then fsError ''EEXIST'' [''src'', ''components'']
      else (case lookup repo (t @ [''types.ts'']) of
              Some (Dir ds) \<Rightarrow> fsError ''EISDIR'' (TEMP_DIR @ t @ [''types.ts''])
            | _ \<Rightarrow> Error ComponentNotFound
                    (''Component '' @ component @ '' not found in solo-ui components'')))"

section \<open>Lookup after a change of the tree\<close>

lemma lookup_single: "lookup es [n] = map_of es n"
  by (simp split: option.splits node.splits)

lemma put_below: "p \<noteq> [] \<Longrightarrow> put p f es = alter p f es"
  by (cases p) simp_all

lemma segments_plain: "CHR ''/'' \<notin> set c \<Longrightarrow> segments c = [c]"
  by (induction c) auto

lemma join_valid [simp]: "valid_name c \<Longrightarrow> join base c = base @ [c]"
  by (simp add: join_def valid_name_def segments_plain)

lemma slashed_valid [simp]: "valid_name c \<Longrightarrow> \<not> slashed c"
proof
  assume v: "valid_name c" and s: "slashed c"
  then have "last c \<in> set c" by (intro last_in_set) (simp add: valid_name_def)
  with v s show False by (simp add: slashed_def valid_name_def)
qed

lemma lookup_empty: "p \<noteq> [] \<Longrightarrow> lookup [] p = None"
  by (cases p) simp_all

lemma lookup_alter_frame:
  "\<not> prefix p q \<Longrightarrow> \<not> prefix q p \<Longrightarrow> lookup (alter p f es) q = lookup es q"
proof (induction p f es arbitrary: q rule: alter.induct)
  case (1 f es)
  then show ?case by simp
next
  case (2 n f es)
  then obtain m r where q: "q = m # r" "m \<noteq> n" by (cases q) auto
  then show ?case
    by (simp add: update_conv' delete_conv' split: option.splits)
next
  case (3 n a p f es)
  then obtain m r where q: "q = m # r" by (cases q) auto
  show ?case
  proof (cases "m = n")
    case False
    with q show ?thesis
      by (simp add: update_conv' split: option.splits node.splits)
  next
    case True
    with 3 q have r: "\<not> prefix (a # p) r" "\<not> prefix r (a # p)" by auto
    show ?thesis
    proof (cases "map_of es n")
      case None
      then show ?thesis by simp
    next
      case (Some x)
      then show ?thesis
      proof (cases x)
        case (File c)
        with Some show ?thesis by simp
      next
        case (Dir ds)
        with Some True q r 3(1)[OF Some Dir r] show ?thesis
          by (simp add: update_conv')
      qed
    qed
  qed
qed

lemma lookup_alter_top:
  "lookup (alter [n] f es) (n # r) =
     (case f (map_of es n) of
        None \<Rightarrow> None
      | Some (File c) \<Rightarrow> (if r = [] then Some (File c) else None)
      | Some (Dir ds) \<Rightarrow> lookup ds r)"
  by (simp add: update_conv' delete_conv' split: option.splits node.splits)

lemma mkdirs_frame:
  "mkdirs p es = Some es' \<Longrightarrow> \<not> prefix q p \<Longrightarrow> lookup es' q = lookup es q"
proof (induction p es arbitrary: es' q rule: mkdirs.induct)
  case (1 es)
  then show ?case by simp
next
  case (2 n p es)
  then obtain m r where q: "q = m # r" by (cases q) auto
  show ?case
  proof (cases "map_of es n")
    case None
    with 2(3) obtain ds where ds: "mkdirs p [] = Some ds" "es' = es @ [(n, Dir ds)]"
      by auto
    show ?thesis
    proof (cases "m = n")
      case False
      with q ds show ?thesis by (simp add: map_add_def split: option.splits)
    next
      case True
      with q 2(4) have r: "\<not> prefix r p" by simp
      then have "r \<noteq> []" by auto
      with 2(1)[OF None ds(1) r] have "lookup ds r = None" by (simp add: lookup_empty)
      with True q ds None show ?thesis by (simp add: map_add_def)
    qed
  next
    case (Some x)
    show ?thesis
    proof (cases x)
      case (File c)
      with Some 2(3) show ?thesis by simp
    next
      case (Dir ds)
      with Some 2(3) obtain ds' where ds': "mkdirs p ds = Some ds'"
        "es' = AList.update n (Dir ds') es" by auto
      show ?thesis
      proof (cases "m = n")
        case False
        with q ds' show ?thesis by (simp add: update_conv')
      next
        case True
        with q 2(4) have r: "\<not> prefix r p" by simp
        from 2(2)[OF Some Dir ds'(1) r] True q ds' Some Dir show ?thesis
          by (simp add: update_conv')
      qed
    qed
  qed
qed

lemma mkdirs_at:
  "mkdirs p es = Some es' \<Longrightarrow>
   lookup es' p = (case lookup es p of None \<Rightarrow> Some (Dir []) | Some x \<Rightarrow> Some x)"
proof (induction p es arbitrary: es' rule: mkdirs.induct)
  case (1 es)
  then show ?case by simp
next
  case (2 n p es)
  show ?case
  proof (cases "map_of es n")
    case None
    with 2(3) obtain ds where ds: "mkdirs p [] = Some ds" "es' = es @ [(n, Dir ds)]"
      by auto
    from 2(1)[OF None ds(1)] have "lookup ds p = Some (Dir [])"
      by (cases p) (simp_all add: lookup_empty)
    with None ds show ?thesis by (simp add: map_add_def)
  next
    case (Some x)
    show ?thesis
    proof (cases x)
      case (File c)
      with Some 2(3) show ?thesis by simp
    next
      case (Dir ds)
      with Some 2(3) obtain ds' where ds': "mkdirs p ds = Some ds'"
        "es' = AList.update n (Dir ds') es" by auto
      from 2(2)[OF Some Dir ds'(1)] Some Dir ds' show ?thesis
        by (simp add: update_conv')
    qed
  qed
qed

lemma lookup_below_file:
  "lookup es p = Some (File c) \<Longrightarrow> prefix p q \<Longrightarrow> p \<noteq> q \<Longrightarrow> lookup es q = None"
proof (induction p arbitrary: es q)
  case Nil
  then show ?case by simp
next
  case (Cons n p)
  then obtain r where q: "q = n # r" "prefix p r" "p \<noteq> r" by (cases q) auto
  show ?case
  proof (cases "map_of es n")
    case None
    with Cons(2) show ?thesis by simp
  next
    case (Some x)
    show ?thesis
    proof (cases x)
      case (File c')
      with Some Cons(2) have "p = []" by (simp split: if_splits)
      with q have "r \<noteq> []" by simp
      with Some File q show ?thesis by simp
    next
      case (Dir ds)
      with Some Cons(2) have "lookup ds p = Some (File c)" by simp
      from Cons(1)[OF this q(2,3)] Some Dir q show ?thesis by simp
    qed
  qed
qed

lemma lookup_alter_file:
  "lookup es p = Some (File c) \<Longrightarrow> lookup (alter p (\<lambda>old. Some (File c')) es) p = Some (File c')"
proof (induction p "\<lambda>old::node option. Some (File c')" es rule: alter.induct)
  case (1 es)
  then show ?case by simp
next
  case (2 n es)
  then show ?case by (simp add: update_conv')
next
  case (3 n a p es)
  from 3(2) obtain ds where ds: "map_of es n = Some (Dir ds)" "lookup ds (a # p) = Some (File c)"
    by (cases "map_of es n") (auto split: node.splits)
  from 3(1)[OF ds(1) refl ds(2)] ds(1) show ?case
    by (simp add: update_conv')
qed

text \<open>From here on a lookup is unfolded only where a proof asks for it.\<close>

declare lookup.simps [simp del]

section \<open>Substrings\<close>

lemma includes_str_sublist: "includes_str g f = sublist f g"
  by (induction g) (auto simp: sublist_Cons_right)

lemma includes_str_append: "includes_str (a @ f) f"
  by (simp add: includes_str_sublist)

lemma occurrences_short: "length g < length f \<Longrightarrow> occurrences f g = 0"
  by (induction g) (auto dest: prefix_length_le)

lemma occurrences_self: "f \<noteq> [] \<Longrightarrow> occurrences f f = 1"
  by (cases f) (simp_all add: occurrences_short)

lemma occurrences_appended:
  "\<not> includes_str g f \<Longrightarrow> n \<notin> set f \<Longrightarrow> occurrences f (g @ n # f) = 1"
proof (induction g)
  case Nil
  then have "f \<noteq> []" by auto
  moreover from Nil this have "\<not> prefix f (n # f)" by (cases f) auto
  ultimately show ?case by (simp add: occurrences_self)
next
  case (Cons c g)
  then have np: "\<not> prefix f (c # g)" and ni: "\<not> includes_str g f" by auto
  have "\<not> prefix f ((c # g) @ n # f)"
  proof
    assume "prefix f ((c # g) @ n # f)"
    then consider "prefix f (c # g)" | us where "f = (c # g) @ us" "prefix us (n # f)"
      unfolding prefix_append by blast
    then show False
    proof cases
      case 1
      with np show ?thesis by simp
    next
      case 2
      with np Cons(3) show ?thesis by (cases us) auto
    qed
  qed
  with Cons.IH[OF ni Cons(3)] show ?case by simp
qed


section \<open>The style merger\<close>

lemma files_unrelated:
  assumes "lookup es p = Some (File c)" "lookup es q = Some (File d)" "p \<noteq> q"
  shows "\<not> prefix p q \<and> \<not> prefix q p"
  using assms lookup_below_file[of es p c q] lookup_below_file[of es q d p] by auto

lemma appendFile_existing:
  "lookup (files w) g = Some (File gs) \<Longrightarrow>
   appendFile g c w = (Inr (), w\<lparr>files := alter g (\<lambda>old. Some (File (gs @ c))) (files w)\<rparr>)"
  by (simp add: appendFile_def)

lemma mergeStyles_present:
  assumes "lookup (files w) (cp @ [''styles.css'']) = Some (File f)"
      and "lookup (files w) g = Some (File gs)"
  shows "mergeStyles g cp w =
           (if includes_str gs f then (Inr (), w) else appendFile g (''\<newline>'' @ f) w)"
  using assms by (simp add: mergeStyles_def Let_def bnd_def pathExists_def readFile_def ret_def)


text \<open>
  C1, as the code has it. When the component has a style fragment \<open>f\<close> and the project a
  global stylesheet \<open>gs\<close> (two different files), \<^verbatim>\<open>mergeStyles\<close> does nothing if \<open>f\<close> is a
  substring of \<open>gs\<close> and otherwise appends a newline and \<open>f\<close>. The stylesheet then contains
  \<open>f\<close>, and merging the same fragment a second time changes nothing. That the fragment
  occurs exactly once holds when it was not there before and has no newline in it; in
  general it does not.
\<close>

theorem mergeStyles_twice:
  assumes frag: "lookup (files w) (cp @ [''styles.css'']) = Some (File f)"
      and glob: "lookup (files w) g = Some (File gs)"
      and diff: "g \<noteq> cp @ [''styles.css'']"
  shows "mergeStyles g cp w =
           (if includes_str gs f then (Inr (), w) else appendFile g (''\<newline>'' @ f) w)
       \<and> lookup (files (snd (mergeStyles g cp w))) g =
           Some (File (if includes_str gs f then gs else gs @ ''\<newline>'' @ f))
       \<and> includes_str (if includes_str gs f then gs else gs @ ''\<newline>'' @ f) f
       \<and> mergeStyles g cp (snd (mergeStyles g cp w)) = (Inr (), snd (mergeStyles g cp w))
       \<and> (\<not> includes_str gs f \<and> CHR 0x0A \<notin> set f \<longrightarrow>
            occurrences f (gs @ ''\<newline>'' @ f) = 1)"
proof -
  let ?w1 = "snd (mergeStyles g cp w)"
  let ?gs1 = "if includes_str gs f then gs else gs @ ''\<newline>'' @ f"
  have once: "mergeStyles g cp w =
           (if includes_str gs f then (Inr (), w) else appendFile g (''\<newline>'' @ f) w)"
    using frag glob by (rule mergeStyles_present)
  have unrel: "\<not> prefix g (cp @ [''styles.css''])" "\<not> prefix (cp @ [''styles.css'']) g"
    using files_unrelated[OF glob frag diff] by simp_all
  have glob1: "lookup (files ?w1) g = Some (File ?gs1)"
    using glob by (simp add: once appendFile_existing lookup_alter_file)
  have frag1: "lookup (files ?w1) (cp @ [''styles.css'']) = Some (File f)"
    using frag glob unrel by (simp add: once appendFile_existing lookup_alter_frame)
  have inc: "includes_str ?gs1 f"
    using includes_str_append[of "gs @ ''\<newline>''" f] by simp
  have twice: "mergeStyles g cp ?w1 = (Inr (), ?w1)"
    using mergeStyles_present[OF frag1 glob1] inc by simp
  have one: "\<not> includes_str gs f \<and> CHR 0x0A \<notin> set f \<longrightarrow>
            occurrences f (gs @ ''\<newline>'' @ f) = 1"
    using occurrences_appended[of gs f "CHR 0x0A"] by simp
  from once glob1 inc twice one show ?thesis by blast
qed

theorem mergeStyles_twice_witness:
  "lookup (files styled_project) (button_path @ [''styles.css'']) = Some (File ''b{}'')
   \<and> lookup (files styled_project) globalStylePath_cli = Some (File ''a{}'')
   \<and> globalStylePath_cli \<noteq> button_path @ [''styles.css'']
   \<and> mergeStyles globalStylePath_cli button_path styled_project =
        appendFile globalStylePath_cli ''\<newline>b{}'' styled_project
   \<and> lookup (files (snd (mergeStyles globalStylePath_cli button_path styled_project)))
        globalStylePath_cli = Some (File ''a{}\<newline>b{}'')
   \<and> mergeStyles globalStylePath_cli button_path
        (snd (mergeStyles globalStylePath_cli button_path styled_project)) =
        (Inr (), snd (mergeStyles globalStylePath_cli button_path styled_project))
   \<and> occurrences ''b{}'' ''a{}\<newline>b{}'' = 1"
proof -
  have h1: "lookup (files styled_project) (button_path @ [''styles.css'']) = Some (File ''b{}'')"
    by (simp add: styled_project_def fresh_def lookup.simps)
  have h2: "lookup (files styled_project) globalStylePath_cli = Some (File ''a{}'')"
    by (simp add: styled_project_def fresh_def lookup.simps)
  have h3: "globalStylePath_cli \<noteq> button_path @ [''styles.css'']"
    by simp
  have absent: "\<not> includes_str ''a{}'' ''b{}''" by simp
  show ?thesis
    using mergeStyles_twice[OF h1 h2 h3] h1 h2 h3 absent by auto
qed

text \<open>
  C1, as it is stated, fails: the stylesheet \<^verbatim>\<open>a{}\<close> does not contain the fragment
  \<^verbatim>\<open>a{}\<close> with its final newline, so the first merge appends a newline and the fragment,
  and the fragment then occurs twice, at two places that do not overlap. The second merge
  changes nothing.
\<close>

theorem mergeStyles_twice_counterexample:
  "lookup (files (snd (mergeStyles globalStylePath_cli button_path
             (snd (mergeStyles globalStylePath_cli button_path unterminated_sheet)))))
      globalStylePath_cli = Some (File ''a{}\<newline>a{}\<newline>'')
   \<and> occurrences ''a{}\<newline>'' ''a{}\<newline>a{}\<newline>'' = 2
   \<and> disjoint_occurrences 0 ''a{}\<newline>'' ''a{}\<newline>a{}\<newline>'' = 2"
  by (simp add: mergeStyles_def Let_def bnd_def pathExists_def readFile_def ret_def
        appendFile_def unterminated_sheet_def fresh_def
        lookup.simps)

section \<open>Results of the single steps\<close>

lemma lookup_below_absent: "lookup es p = None \<Longrightarrow> lookup es (p @ r) = None"
proof (induction p arbitrary: es)
  case Nil
  then show ?case by (simp add: lookup.simps)
next
  case (Cons n p)
  show ?case
  proof (cases "map_of es n")
    case None
    then show ?thesis by (simp add: lookup.simps)
  next
    case (Some x)
    show ?thesis
    proof (cases x)
      case (File c)
      with Some Cons(2) show ?thesis by (simp add: lookup.simps split: if_splits)
    next
      case (Dir ds)
      with Some Cons show ?thesis by (simp add: lookup.simps)
    qed
  qed
qed

lemma bnd_alt:
  "bnd m f w = (case fst (m w) of Inl e \<Rightarrow> (Inl e, snd (m w)) | Inr x \<Rightarrow> f x (snd (m w)))"
  by (simp add: bnd_def split: prod.splits sum.splits)

lemma bnd_failed:
  "fst (bnd m f w) = Inl e \<Longrightarrow>
     (fst (m w) = Inl e \<and> snd (bnd m f w) = snd (m w))
   \<or> (\<exists>x. fst (m w) = Inr x \<and> fst (f x (snd (m w))) = Inl e
           \<and> snd (bnd m f w) = snd (f x (snd (m w))))"
  by (cases "fst (m w)") (simp_all add: bnd_alt)

lemma bnd_returned:
  "fst (bnd m f w) = Inr y \<Longrightarrow>
   \<exists>x. fst (m w) = Inr x \<and> fst (f x (snd (m w))) = Inr y
         \<and> snd (bnd m f w) = snd (f x (snd (m w)))"
  by (cases "fst (m w)") (simp_all add: bnd_alt)

lemma hoare_bnd:
  assumes m: "hoare P m R E" and f: "\<And>x. hoare (R x) (f x) S E"
  shows "hoare P (bnd m f) S E"
  unfolding hoare_def
proof (intro allI impI conjI)
  fix w y
  assume P: "P w" and r: "fst (bnd m f w) = Inr y"
  from bnd_returned[OF r] obtain x where x: "fst (m w) = Inr x"
    "fst (f x (snd (m w))) = Inr y" "snd (bnd m f w) = snd (f x (snd (m w)))" by blast
  from m P x(1) have "R x (snd (m w))" by (simp add: hoare_def)
  with f[of x] x(2,3) show "S y (snd (bnd m f w))" by (simp add: hoare_def)
next
  fix w e
  assume P: "P w" and r: "fst (bnd m f w) = Inl e"
  from bnd_failed[OF r] show "E e (snd (bnd m f w))"
  proof
    assume "fst (m w) = Inl e \<and> snd (bnd m f w) = snd (m w)"
    with m P show ?thesis by (simp add: hoare_def)
  next
    assume "\<exists>x. fst (m w) = Inr x \<and> fst (f x (snd (m w))) = Inl e
           \<and> snd (bnd m f w) = snd (f x (snd (m w)))"
    then obtain x where x: "fst (m w) = Inr x"
      "fst (f x (snd (m w))) = Inl e" "snd (bnd m f w) = snd (f x (snd (m w)))" by blast
    from m P x(1) have "R x (snd (m w))" by (simp add: hoare_def)
    with f[of x] x(2,3) show ?thesis by (simp add: hoare_def)
  qed
qed

lemma hoare_if:
  assumes "c \<Longrightarrow> hoare P a S E" and "\<not> c \<Longrightarrow> hoare P b S E"
  shows "hoare P (if c then a else b) S E"
  using assms by simp

lemma hoare_pre:
  assumes "hoare P' m S E" and "\<And>w. P w \<Longrightarrow> P' w"
  shows "hoare P m S E"
  using assms unfolding hoare_def by blast

lemma hoare_never: "hoare (\<lambda>w. False) m S E"
  by (simp add: hoare_def)

lemma hoare_failed:
  "hoare P m S E \<Longrightarrow> P w \<Longrightarrow> fst (m w) = Inl e \<Longrightarrow> E e (snd (m w))"
  by (simp add: hoare_def)

lemma hoare_returned:
  "hoare P m S E \<Longrightarrow> P w \<Longrightarrow> fst (m w) = Inr x \<Longrightarrow> S x (snd (m w))"
  by (simp add: hoare_def)

lemma cleanupTemp_files:
  "files (cleanupTemp env w) =
     (if lookup (files w) TEMP_DIR \<noteq> None \<and> rm_failure env = None
      then alter TEMP_DIR (\<lambda>old. None) (files w) else files w)"
  by (simp add: cleanupTemp_def bnd_def pathExists_def remove_def ret_def said_def
        split: option.splits)

lemma cleanupTemp_scratch:
  "lookup (files (cleanupTemp env w)) TEMP_DIR =
     (if rm_failure env = None then None else lookup (files w) TEMP_DIR)"
  by (simp add: cleanupTemp_files delete_conv' lookup_single split: option.splits)

lemma cleanupTemp_spinner: "spinner (cleanupTemp env w) = spinner w"
  by (simp add: cleanupTemp_def bnd_def pathExists_def remove_def ret_def said_def
        split: option.splits)

lemma cleanupTemp_clones: "clones (cleanupTemp env w) = clones w"
  by (simp add: cleanupTemp_def bnd_def pathExists_def remove_def ret_def said_def
        split: option.splits)

lemma cleanupTemp_prompted: "prompted (cleanupTemp env w) = prompted w"
  by (simp add: cleanupTemp_def bnd_def pathExists_def remove_def ret_def said_def
        split: option.splits)

lemma cleanupTemp_console:
  "console (cleanupTemp env w) =
     (if lookup (files w) TEMP_DIR \<noteq> None \<and> rm_failure env \<noteq> None
      then console w @ [Warn ''Failed to clean up temporary directory''] else console w)"
  by (simp add: cleanupTemp_def bnd_def pathExists_def remove_def ret_def said_def
        split: option.splits)

lemma cleanupTemp_frame:
  "\<not> prefix TEMP_DIR q \<Longrightarrow> q \<noteq> [] \<Longrightarrow> lookup (files (cleanupTemp env w)) q = lookup (files w) q"
  by (cases q) (simp_all add: cleanupTemp_files lookup.simps delete_conv')

named_theorems stage

lemma pathExists_stage [stage]:
  "fst (pathExists p w) = Inr (lookup (files w) p \<noteq> None)" "snd (pathExists p w) = w"
  by (simp_all add: pathExists_def)

lemma ret_stage [stage]: "fst (ret x w) = Inr x" "snd (ret x w) = w"
  by (simp_all add: ret_def)

lemma throw_stage [stage]: "fst (throw e w) = Inl e" "snd (throw e w) = w"
  by (simp_all add: throw_def)

lemma lift_stage [stage]: "fst (lift r w) = r" "snd (lift r w) = w"
  by (simp_all add: lift_def)

lemma spin_stage [stage]: "fst (spin s w) = Inr ()" "snd (spin s w) = spun s w"
  by (simp_all add: spin_def)

lemma say_stage [stage]: "fst (say s w) = Inr ()" "snd (say s w) = said s w"
  by (simp_all add: say_def)

lemma spun_fields [stage]:
  "files (spun s w) = files w" "clones (spun s w) = clones w"
  "console (spun s w) = console w" "prompted (spun s w) = prompted w"
  "spinner (spun s w) = spinner w @ [s]"
  by (simp_all add: spun_def)

lemma said_fields [stage]:
  "files (said s w) = files w" "clones (said s w) = clones w"
  "console (said s w) = console w @ [s]" "prompted (said s w) = prompted w"
  "spinner (said s w) = spinner w"
  by (simp_all add: said_def)

lemma readFile_stage [stage]:
  "fst (readFile p w) =
     (case lookup (files w) p of
        None \<Rightarrow> Inl (fsError ''ENOENT'' p)
      | Some (Dir ds) \<Rightarrow> Inl (fsError ''EISDIR'' p)
      | Some (File c) \<Rightarrow> Inr c)"
  "snd (readFile p w) = w"
  by (simp_all add: readFile_def split: option.splits node.splits)

lemma checkProjectConfig_stage [stage]:
  "fst (checkProjectConfig w) =
     (if lookup (files w) [''package.json''] \<noteq> None then Inr ()
      else Inl (Error NotAProject
             ''No package.json found. Please run this command in a Node.js project.''))"
  "snd (checkProjectConfig w) = w"
  by (simp_all add: checkProjectConfig_def bnd_def pathExists_def ret_def throw_def)

lemma ensureDir_fst [stage]:
  "fst (ensureDir p w) = (if mkdirs p (files w) = None then Inl (fsError ''EEXIST'' p) else Inr ())"
  by (simp add: ensureDir_def split: option.splits)

lemma ensureDir_fields [stage]:
  "clones (snd (ensureDir p w)) = clones w" "spinner (snd (ensureDir p w)) = spinner w"
  "console (snd (ensureDir p w)) = console w" "prompted (snd (ensureDir p w)) = prompted w"
  by (simp_all add: ensureDir_def split: option.splits)

lemma ensureDir_frame:
  "\<not> prefix q p \<Longrightarrow> lookup (files (snd (ensureDir p w))) q = lookup (files w) q"
  by (auto simp: ensureDir_def mkdirs_frame split: option.splits)

lemma ensureDir_at:
  "fst (ensureDir p w) = Inr () \<Longrightarrow>
   lookup (files (snd (ensureDir p w))) p =
     (case lookup (files w) p of None \<Rightarrow> Some (Dir []) | Some x \<Rightarrow> Some x)"
  by (auto simp: ensureDir_def mkdirs_at split: option.splits)

lemma ensureDir_failed: "fst (ensureDir p w) = Inl e \<Longrightarrow> snd (ensureDir p w) = w"
  by (auto simp: ensureDir_def split: option.splits)

lemma copy_fields [stage]:
  "clones (snd (copy src dest w)) = clones w" "spinner (snd (copy src dest w)) = spinner w"
  "console (snd (copy src dest w)) = console w" "prompted (snd (copy src dest w)) = prompted w"
  by (simp_all add: copy_def Let_def split: option.splits node.splits prod.splits)

lemma copy_frame:
  assumes "\<not> prefix q dest" "\<not> prefix dest q"
  shows "lookup (files (snd (copy src dest w))) q = lookup (files w) q"
proof -
  have "\<not> prefix q (butlast dest)"
    using assms(1) by (metis prefix_order.trans prefixeq_butlast)
  then have "\<And>es1. mkdirs (butlast dest) (files w) = Some es1 \<Longrightarrow>
      lookup (alter dest f es1) q = lookup (files w) q" for f
    using assms by (simp add: lookup_alter_frame mkdirs_frame)
  moreover from assms(2) have "dest \<noteq> []" by auto
  ultimately show ?thesis
    by (simp add: copy_def Let_def put_below split: option.splits node.splits prod.splits)
qed

lemma copy_slash_plain [simp]: "copy_slash False src dest = copy src dest"
  by (rule ext) (simp add: copy_slash_def)

lemma copy_slash_fields [stage]:
  "clones (snd (copy_slash slash src dest w)) = clones w"
  "spinner (snd (copy_slash slash src dest w)) = spinner w"
  "console (snd (copy_slash slash src dest w)) = console w"
  "prompted (snd (copy_slash slash src dest w)) = prompted w"
  by (simp_all add: copy_slash_def copy_fields)

lemma present_plain: "present es False p = (lookup es p \<noteq> None)"
  by (simp add: present_def split: option.splits node.splits)

lemma pathExists_slash_plain [simp]: "pathExists_slash False p = pathExists p"
  by (rule ext) (simp add: pathExists_slash_def pathExists_def present_plain)

lemma pathExists_slash_stage [stage]:
  "fst (pathExists_slash slash p w) = Inr (present (files w) slash p)"
  "snd (pathExists_slash slash p w) = w"
  by (simp_all add: pathExists_slash_def)

lemma git_clone_fst:
  "fst (git_clone env TEMP_DIR w) =
     (if lookup (files w) TEMP_DIR \<noteq> None \<and> lookup (files w) TEMP_DIR \<noteq> Some (Dir [])
      then Inl (Error GitError
              (''fatal: destination path '' @ showPath TEMP_DIR
                 @ '' already exists and is not an empty directory.''))
      else (case remote env of Inl e \<Rightarrow> Inl e | Inr repo \<Rightarrow> Inr ()))"
  by (simp add: git_clone_def split: sum.splits)

lemma git_clone_fields [stage]:
  "spinner (snd (git_clone env dest w)) = spinner w"
  "console (snd (git_clone env dest w)) = console w"
  "prompted (snd (git_clone env dest w)) = prompted w"
  by (simp_all add: git_clone_def split: sum.splits option.splits)

lemma git_clone_frame:
  assumes "\<not> prefix q dest" "\<not> prefix dest q"
  shows "lookup (files (snd (git_clone env dest w))) q = lookup (files w) q"
proof -
  have "\<not> prefix q (butlast dest)"
    using assms(1) by (metis prefix_order.trans prefixeq_butlast)
  then have "\<And>es1. mkdirs (butlast dest) (files w) = Some es1 \<Longrightarrow>
      lookup (alter dest f es1) q = lookup (files w) q" for f
    using assms by (simp add: lookup_alter_frame mkdirs_frame)
  then show ?thesis
    by (simp add: git_clone_def split: sum.splits option.splits)
qed

lemma git_clone_TEMP_DIR:
  "git_clone env TEMP_DIR w =
     (if map_of (files w) ''.solo-ui-temp'' \<noteq> None
         \<and> map_of (files w) ''.solo-ui-temp'' \<noteq> Some (Dir [])
      then (Inl (Error GitError
              (''fatal: destination path '' @ showPath TEMP_DIR
                 @ '' already exists and is not an empty directory.'')), w)
      else
        (case remote env of
           Inl e \<Rightarrow> (Inl e, w\<lparr>clones := Suc (clones w)\<rparr>)
         | Inr repo \<Rightarrow>
             (Inr (), w\<lparr>files := AList.update ''.solo-ui-temp'' (Dir repo) (files w),
                         clones := Suc (clones w)\<rparr>)))"
  by (simp add: git_clone_def lookup_single split: sum.splits)

lemma git_clone_fetched:
  assumes "fst (git_clone env TEMP_DIR w) = Inr ()" "remote env = Inr repo"
  shows "lookup (files (snd (git_clone env TEMP_DIR w))) (''.solo-ui-temp'' # r) = lookup repo r"
proof -
  from assms have "files (snd (git_clone env TEMP_DIR w)) =
      AList.update ''.solo-ui-temp'' (Dir repo) (files w)"
    by (auto simp: git_clone_TEMP_DIR split: if_splits sum.splits)
  then show ?thesis
    by (simp add: update_conv' lookup.simps)
qed

lemma git_clone_refused:
  "fst (git_clone env dest w) = Inl e \<Longrightarrow> files (snd (git_clone env dest w)) = files w"
  by (auto simp: git_clone_def split: sum.splits option.splits if_splits)

lemma checkComponentDependencies_stage [stage]:
  "fst (checkComponentDependencies component w) =
     (case lookup (files w) (join (TEMP_DIR @ [''components'']) component @ [''types.ts'']) of
        Some (Dir ds) \<Rightarrow>
          Inl (fsError ''EISDIR'' (join (TEMP_DIR @ [''components'']) component @ [''types.ts'']))
      | _ \<Rightarrow> Inr ())"
  "snd (checkComponentDependencies component w) = w"
  by (simp_all add: checkComponentDependencies_def Let_def bnd_def pathExists_def readFile_def
        ret_def split: option.splits node.splits)

lemma appendFile_fields [stage]:
  "clones (snd (appendFile p c w)) = clones w" "spinner (snd (appendFile p c w)) = spinner w"
  "console (snd (appendFile p c w)) = console w" "prompted (snd (appendFile p c w)) = prompted w"
  by (simp_all add: appendFile_def split: option.splits node.splits)

lemma mergeStyles_fields [stage]:
  "clones (snd (mergeStyles g cp w)) = clones w" "spinner (snd (mergeStyles g cp w)) = spinner w"
  "console (snd (mergeStyles g cp w)) = console w" "prompted (snd (mergeStyles g cp w)) = prompted w"
  by (simp_all add: mergeStyles_def Let_def bnd_alt stage split: option.splits node.splits sum.splits)

lemma mergeStyles_no_global:
  assumes "lookup (files w) g = None"
  shows "mergeStyles g cp w =
     (case lookup (files w) (cp @ [''styles.css'']) of
        None \<Rightarrow> (Inr (), w)
      | Some (Dir ds) \<Rightarrow> (Inl (fsError ''EISDIR'' (cp @ [''styles.css''])), w)
      | Some (File f) \<Rightarrow> (Inl (fsError ''ENOENT'' g), w))"
  using assms
  by (simp add: mergeStyles_def Let_def bnd_def pathExists_def readFile_def ret_def
        split: option.splits node.splits)

lemma readJson_stage [stage]: "snd (readJson env p w) = w"
  by (simp add: readJson_def bnd_alt stage split: option.splits sum.splits)

lemma checkVersion_stage [stage]:
  "fst (checkVersion env w) = Inr ()"
  "files (snd (checkVersion env w)) = files w"
  "clones (snd (checkVersion env w)) = clones w"
  "spinner (snd (checkVersion env w)) = spinner w"
  "prompted (snd (checkVersion env w)) = prompted w"
  by (simp_all add: checkVersion_def bnd_alt stage say_def ret_def split: sum.splits)

lemma ensureDir_top:
  "\<forall>c. lookup (files w) [n] \<noteq> Some (File c) \<Longrightarrow> fst (ensureDir [n] w) = Inr ()"
  by (cases "map_of (files w) n")
     (auto simp: ensureDir_fst lookup_single split: node.splits)

lemma hoare_fails:
  assumes "hoare P m (\<lambda>x w. False) E" and "P w"
  shows "\<exists>e. fst (m w) = Inl e \<and> E e (snd (m w))"
  using assms unfolding hoare_def by (cases "fst (m w)") auto

lemma ensureDir_two:
  assumes "\<forall>t. lookup (files w) [a] \<noteq> Some (File t)"
      and "\<forall>t. lookup (files w) [a, b] \<noteq> Some (File t)"
  shows "fst (ensureDir [a, b] w) = Inr ()"
proof (cases "map_of (files w) a")
  case None
  then show ?thesis by (simp add: ensureDir_fst)
next
  case (Some x)
  show ?thesis
  proof (cases x)
    case (File t)
    with Some assms(1) show ?thesis by (simp add: lookup_single)
  next
    case (Dir ds)
    with Some assms(2) have "\<forall>t. map_of ds b \<noteq> Some (File t)"
      by (simp add: lookup.simps(2)[where p="[b]"] lookup_single)
    with Some Dir show ?thesis
      by (cases "map_of ds b") (auto simp: ensureDir_fst split: node.splits)
  qed
qed

section \<open>Cleanup of the scratch directory\<close>

lemma cleanupTemp_cleaned: "cleaned env (cleanupTemp env w)"
proof (cases "rm_failure env")
  case None
  then show ?thesis by (simp add: cleaned_def cleanupTemp_scratch)
next
  case (Some e)
  then show ?thesis by (simp add: cleaned_def cleanupTemp_scratch cleanupTemp_console)
qed

text \<open>
  C2, as the code has it. Every command ends with \<^verbatim>\<open>cleanupTemp\<close>, whether its pipeline
  succeeded or failed at any stage. After the command the scratch directory
  \<^verbatim>\<open>.solo-ui-temp\<close> does not exist, unless removing it failed: that failure is caught
  inside \<^verbatim>\<open>cleanupTemp\<close>, the warning is printed and the directory stays.
\<close>

theorem scratch_removed_or_warned:
  "cleaned env (add_cli env component w) \<and> cleaned env (init_cli env w)
   \<and> cleaned env (list_cli env w) \<and> cleaned env (add_src env component w)
   \<and> cleaned env (init_src env w) \<and> cleaned env (list_src env w)"
  by (simp add: add_cli_def init_cli_def list_cli_def add_src_def init_src_def list_src_def
        cleanupTemp_cleaned)

theorem scratch_removed_or_warned_witness:
  "rm_failure (online catalog) = None
   \<and> lookup (files (add_cli (online catalog) ''button'' node_project)) TEMP_DIR = None
   \<and> lookup (files (init_cli (online catalog) node_project)) TEMP_DIR = None
   \<and> lookup (files (list_cli (online catalog) node_project)) TEMP_DIR = None
   \<and> lookup (files (add_src (online catalog) ''button'' node_project)) TEMP_DIR = None
   \<and> lookup (files (init_src (online catalog) node_project)) TEMP_DIR = None
   \<and> lookup (files (list_src (online catalog) node_project)) TEMP_DIR = None"
proof -
  have ok: "rm_failure (online catalog) = None" by (simp add: online_def)
  with scratch_removed_or_warned[of "online catalog" "''button''" node_project]
  show ?thesis by (simp add: cleaned_def)
qed

text \<open>
  C2, as it is stated, fails where \<^verbatim>\<open>fs.remove\<close> fails: the handler in \<^verbatim>\<open>cleanupTemp\<close>
  only warns, and the fetched copy is still in the scratch directory when \<^verbatim>\<open>add\<close> ends.
\<close>

theorem scratch_left_counterexample:
  "lookup (files (add_src (locked catalog) ''button'' node_project)) TEMP_DIR = Some (Dir catalog)
   \<and> last (console (add_src (locked catalog) ''button'' node_project)) =
       Warn ''Failed to clean up temporary directory''"
  by code_simp

section \<open>A component that is not in the catalog\<close>

lemma reached_join:
  "reached base name = Some r \<Longrightarrow> join (TEMP_DIR @ base) name = ''.solo-ui-temp'' # r"
  by (auto simp: reached_def split: list.splits if_splits)

lemma absent_below:
  assumes "\<not> present es slash p"
  shows "lookup es (p @ [n]) = None"
proof (cases "lookup es p")
  case None
  then show ?thesis by (rule lookup_below_absent)
next
  case (Some x)
  with assms obtain c where "lookup es p = Some (File c)"
    by (cases x) (auto simp: present_def)
  then show ?thesis by (rule lookup_below_file) simp_all
qed

lemma isFile_iff: "isFile v \<longleftrightarrow> (\<exists>c. v = Some (File c))"
  by (cases v rule: isFile.cases) simp_all

lemma ensureDir_two_blocked:
  assumes "isFile (lookup (files w) [a]) \<or> isFile (lookup (files w) [a, b])"
  shows "fst (ensureDir [a, b] w) = Inl (fsError ''EEXIST'' [a, b])"
proof (cases "map_of (files w) a")
  case None
  with assms show ?thesis by (simp add: lookup.simps)
next
  case (Some x)
  show ?thesis
  proof (cases x)
    case (File c)
    with Some show ?thesis by (simp add: ensureDir_fst)
  next
    case (Dir ds)
    with Some assms have "isFile (map_of ds b)"
      by (simp add: lookup.simps(2)[where p="[b]"] lookup_single)
    then obtain c where "map_of ds b = Some (File c)" by (auto simp: isFile_iff)
    with Some Dir show ?thesis by (simp add: ensureDir_fst)
  qed
qed

lemma add_cli_try_absent:
  assumes manifest: "lookup (files w) [''package.json''] \<noteq> None"
      and scratch: "lookup (files w) TEMP_DIR = None \<or> lookup (files w) TEMP_DIR = Some (Dir [])"
      and fetched: "remote env = Inr repo"
      and place: "reached [''components''] component = Some p"
      and absent: "\<not> present repo (slashed component) p"
  shows "fst (add_cli_try env component w) =
           Inl (Error ComponentNotFound (''Component '' @ component @ '' not found''))"
    and "lookup (files (snd (add_cli_try env component w))) [''components''] =
           lookup (files w) [''components'']"
    and "spinner (snd (add_cli_try env component w)) = spinner w"
proof -
  let ?w1 = "snd (ensureDir TEMP_DIR w)"
  let ?w2 = "snd (git_clone env TEMP_DIR ?w1)"
  let ?w3 = "snd (checkVersion env ?w2)"
  have j: "join [''.solo-ui-temp'', ''components''] component = ''.solo-ui-temp'' # p"
    using reached_join[OF place] by simp
  have e: "fst (ensureDir TEMP_DIR w) = Inr ()"
    using scratch by (intro ensureDir_top) auto
  have t1: "lookup (files ?w1) TEMP_DIR = Some (Dir [])"
    using scratch ensureDir_at[OF e] by auto
  have c: "fst (git_clone env TEMP_DIR ?w1) = Inr ()"
    using t1 fetched by (simp add: git_clone_fst)
  have scratch_copy: "lookup (files ?w2) (''.solo-ui-temp'' # r) = lookup repo r" for r
    by (rule git_clone_fetched[OF c fetched])
  have types: "lookup (files ?w2) (''.solo-ui-temp'' # p @ [''types.ts'']) = None"
    using absent_below[OF absent] by (simp add: scratch_copy)
  have d: "fst (checkComponentDependencies component ?w3) = Inr ()"
    by (simp add: checkComponentDependencies_stage checkVersion_stage j types)
  have f: "\<not> present (files ?w2) (slashed component) (''.solo-ui-temp'' # p)"
    using absent by (simp add: present_def scratch_copy)
  have body: "add_cli_try env component w =
      (Inl (Error ComponentNotFound (''Component '' @ component @ '' not found'')), ?w3)"
    by (rule prod_eqI)
       (simp_all add: add_cli_try_def Let_def bnd_alt checkProjectConfig_stage manifest e c d j f
          checkVersion_stage checkComponentDependencies_stage(2) pathExists_slash_stage
          throw_stage)
  show "fst (add_cli_try env component w) =
           Inl (Error ComponentNotFound (''Component '' @ component @ '' not found''))"
    by (simp add: body)
  show "lookup (files (snd (add_cli_try env component w))) [''components''] =
           lookup (files w) [''components'']"
    by (simp add: body checkVersion_stage git_clone_frame ensureDir_frame)
  show "spinner (snd (add_cli_try env component w)) = spinner w"
    by (simp add: body checkVersion_stage git_clone_fields ensureDir_fields)
qed

lemma add_src_try_absent:
  assumes manifest: "lookup (files w) [''package.json''] \<noteq> None"
      and scratch: "lookup (files w) TEMP_DIR = None \<or> lookup (files w) TEMP_DIR = Some (Dir [])"
      and fetched: "remote env = Inr repo"
      and place: "reached [''packages'', ''components''] component = Some p"
      and types: "reached [''components''] component = Some t"
      and absent: "\<not> present repo (slashed component) p"
  shows "fst (add_src_try env component w) = Inl (add_src_failure (files w) repo t component)"
    and "lookup (files (snd (add_src_try env component w))) [''src'', ''components''] =
           (if blocked (files w) then lookup (files w) [''src'', ''components'']
            else case lookup (files w) [''src'', ''components''] of
                   None \<Rightarrow> Some (Dir []) | Some x \<Rightarrow> Some x)"
    and "spinner (snd (add_src_try env component w)) = spinner w"
proof -
  let ?w1 = "snd (ensureDir TEMP_DIR w)"
  let ?w2 = "snd (ensureDir [''src'', ''components''] ?w1)"
  let ?w3 = "snd (git_clone env TEMP_DIR ?w2)"
  let ?notFound = "Error ComponentNotFound
                     (''Component '' @ component @ '' not found in solo-ui components'')"
  have jp: "join [''.solo-ui-temp'', ''packages'', ''components''] component = ''.solo-ui-temp'' # p"
    using reached_join[OF place] by simp
  have jt: "join [''.solo-ui-temp'', ''components''] component = ''.solo-ui-temp'' # t"
    using reached_join[OF types] by simp
  have e1: "fst (ensureDir TEMP_DIR w) = Inr ()"
    using scratch by (intro ensureDir_top) auto
  have t1: "lookup (files ?w1) TEMP_DIR = Some (Dir [])"
    using scratch ensureDir_at[OF e1] by auto
  have s1: "lookup (files ?w1) [''src''] = lookup (files w) [''src'']"
    "lookup (files ?w1) [''src'', ''components''] = lookup (files w) [''src'', ''components'']"
    by (simp_all add: ensureDir_frame)
  show "fst (add_src_try env component w) = Inl (add_src_failure (files w) repo t component)"
    "lookup (files (snd (add_src_try env component w))) [''src'', ''components''] =
           (if blocked (files w) then lookup (files w) [''src'', ''components'']
            else case lookup (files w) [''src'', ''components''] of
                   None \<Rightarrow> Some (Dir []) | Some x \<Rightarrow> Some x)"
    "spinner (snd (add_src_try env component w)) = spinner w"
  proof (atomize (full), cases "blocked (files w)")
    case True
    then have e2: "fst (ensureDir [''src'', ''components''] ?w1) =
        Inl (fsError ''EEXIST'' [''src'', ''components''])"
      by (intro ensureDir_two_blocked) (simp add: s1 blocked_def)
    have body: "add_src_try env component w =
        (Inl (fsError ''EEXIST'' [''src'', ''components'']), ?w1)"
      by (rule prod_eqI)
         (simp_all add: add_src_try_def bnd_alt checkProjectConfig_stage manifest e1 e2
            ensureDir_failed[OF e2])
    from True show "fst (add_src_try env component w) =
          Inl (add_src_failure (files w) repo t component)
       \<and> lookup (files (snd (add_src_try env component w))) [''src'', ''components''] =
           (if blocked (files w) then lookup (files w) [''src'', ''components'']
            else case lookup (files w) [''src'', ''components''] of
                   None \<Rightarrow> Some (Dir []) | Some x \<Rightarrow> Some x)
       \<and> spinner (snd (add_src_try env component w)) = spinner w"
      by (simp add: body add_src_failure_def s1 ensureDir_fields)
  next
    case False
    then have free: "\<forall>c. lookup (files ?w1) [''src''] \<noteq> Some (File c)"
       "\<forall>c. lookup (files ?w1) [''src'', ''components''] \<noteq> Some (File c)"
      by (simp_all add: s1 blocked_def isFile_iff)
    have e2: "fst (ensureDir [''src'', ''components''] ?w1) = Inr ()"
      using free by (rule ensureDir_two)
    have made: "lookup (files ?w2) [''src'', ''components''] =
        (case lookup (files w) [''src'', ''components''] of
           None \<Rightarrow> Some (Dir []) | Some x \<Rightarrow> Some x)"
      using ensureDir_at[OF e2] by (simp add: s1)
    have t2: "lookup (files ?w2) TEMP_DIR = Some (Dir [])"
      using t1 by (simp add: ensureDir_frame)
    have c: "fst (git_clone env TEMP_DIR ?w2) = Inr ()"
      using t2 fetched by (simp add: git_clone_fst)
    have scratch_copy: "lookup (files ?w3) (''.solo-ui-temp'' # r) = lookup repo r" for r
      by (rule git_clone_fetched[OF c fetched])
    have d: "fst (checkComponentDependencies component ?w3) =
       (case lookup repo (t @ [''types.ts'']) of
          Some (Dir ds) \<Rightarrow> Inl (fsError ''EISDIR'' (''.solo-ui-temp'' # t @ [''types.ts'']))
        | _ \<Rightarrow> Inr ())"
      by (simp add: checkComponentDependencies_stage jt scratch_copy
            split: option.splits node.splits)
    have f: "\<not> present (files ?w3) (slashed component) (''.solo-ui-temp'' # p)"
      using absent by (simp add: present_def scratch_copy)
    have body: "add_src_try env component w = (Inl (add_src_failure (files w) repo t component), ?w3)"
      using False
      by (intro prod_eqI)
         (simp_all add: add_src_try_def Let_def bnd_alt checkProjectConfig_stage manifest e1 e2 c d
            jp f checkComponentDependencies_stage(2) pathExists_slash_stage throw_stage
            add_src_failure_def split: option.splits node.splits)
    from False show "fst (add_src_try env component w) =
          Inl (add_src_failure (files w) repo t component)
       \<and> lookup (files (snd (add_src_try env component w))) [''src'', ''components''] =
           (if blocked (files w) then lookup (files w) [''src'', ''components'']
            else case lookup (files w) [''src'', ''components''] of
                   None \<Rightarrow> Some (Dir []) | Some x \<Rightarrow> Some x)
       \<and> spinner (snd (add_src_try env component w)) = spinner w"
      by (simp add: body git_clone_frame made git_clone_fields ensureDir_fields)
  qed
qed

text \<open>
  A name need not be one segment. \<^verbatim>\<open>..\<close> leads from the catalog root to \<^verbatim>\<open>packages/\<close> of
  the fetched copy, which exists: for \<^verbatim>\<open>add\<close> this is a component, and it copies the
  directory to \<^verbatim>\<open>src/\<close>, where the whole catalog arrives below \<^verbatim>\<open>src/components\<close>.
\<close>

lemma add_parent_directory:
  "reached [''packages'', ''components''] ''..'' = Some [''packages'']
   \<and> last (spinner (add_src (online catalog) ''..'' node_project)) =
       Succeed ''Successfully added .. component to src/components/..''
   \<and> lookup (files (add_src (online catalog) ''..'' node_project))
       [''src'', ''components'', ''button'', ''index.tsx''] = Some (File ''export {}'')"
  by code_simp




section \<open>A directory without a manifest\<close>

lemma checkProjectConfig_missing:
  "lookup (files w) [''package.json''] = None \<Longrightarrow>
   bnd checkProjectConfig f w =
     (Inl (Error NotAProject
        ''No package.json found. Please run this command in a Node.js project.''), w)"
  by (simp add: bnd_alt stage)

lemma cleanupTemp_only_files:
  "files w' = files w \<Longrightarrow> files (cleanupTemp env w') = files (cleanupTemp env w)"
  by (simp add: cleanupTemp_files)



section \<open>Failures inside a command\<close>

text \<open>
  C9. A command is a function from the world to the world: nothing is thrown out of it.
  When the pipeline of \<^verbatim>\<open>add\<close>, \<^verbatim>\<open>init\<close> or \<^verbatim>\<open>list\<close> fails at any stage with the error \<open>e\<close>,
  leaving the world \<open>w'\<close>, the command tells the spinner that it failed, with the prefix of
  the command and the message of \<open>e\<close> (\<^verbatim>\<open>Unknown error occurred\<close> for a thrown value that is
  not an \<^verbatim>\<open>Error\<close>), and then runs the cleanup on that world.
\<close>

theorem failures_are_reported:
  "(add_cli_try env component (spun (Start ''Fetching component...'') w) = (Inl e, w') \<longrightarrow>
      add_cli env component w =
        cleanupTemp env (spun (Fail (''Failed to add component: '' @ errorMessage e)) w')
    \<and> spinner (add_cli env component w) =
        spinner w' @ [Fail (''Failed to add component: '' @ errorMessage e)]
    \<and> cleaned env (add_cli env component w))
 \<and> (init_cli_try env (spun (Start ''Initializing solo-ui...'') w) = (Inl e, w') \<longrightarrow>
      init_cli env w =
        cleanupTemp env (spun (Fail (''Failed to initialize: '' @ errorMessage e)) w')
    \<and> spinner (init_cli env w) =
        spinner w' @ [Fail (''Failed to initialize: '' @ errorMessage e)]
    \<and> cleaned env (init_cli env w))
 \<and> (list_cli_try env (spun (Start ''Fetching components...'') w) = (Inl e, w') \<longrightarrow>
      list_cli env w =
        cleanupTemp env (spun (Fail (''Failed to fetch components: '' @ errorMessage e)) w')
    \<and> spinner (list_cli env w) =
        spinner w' @ [Fail (''Failed to fetch components: '' @ errorMessage e)]
    \<and> cleaned env (list_cli env w))
 \<and> (add_src_try env component (spun (Start ''Fetching component...'') w) = (Inl e, w') \<longrightarrow>
      add_src env component w =
        cleanupTemp env (spun (Fail (''Failed to add component: '' @ errorMessage e)) w')
    \<and> spinner (add_src env component w) =
        spinner w' @ [Fail (''Failed to add component: '' @ errorMessage e)]
    \<and> cleaned env (add_src env component w))
 \<and> (init_src_try env (spun (Start ''Initializing solo-ui...'') w) = (Inl e, w') \<longrightarrow>
      init_src env w =
        cleanupTemp env (spun (Fail (''Failed to initialize: '' @ errorMessage e)) w')
    \<and> spinner (init_src env w) =
        spinner w' @ [Fail (''Failed to initialize: '' @ errorMessage e)]
    \<and> cleaned env (init_src env w))
 \<and> (list_src_try env (spun (Start ''Fetching components...'') w) = (Inl e, w') \<longrightarrow>
      list_src env w =
        cleanupTemp env (spun (Fail (''Failed to fetch components: '' @ errorMessage e)) w')
    \<and> spinner (list_src env w) =
        spinner w' @ [Fail (''Failed to fetch components: '' @ errorMessage e)]
    \<and> cleaned env (list_src env w))"
proof (intro conjI impI)
  show "cleaned env (add_cli env component w)" by (simp add: add_cli_def cleanupTemp_cleaned)
  show "cleaned env (init_cli env w)" by (simp add: init_cli_def cleanupTemp_cleaned)
  show "cleaned env (list_cli env w)" by (simp add: list_cli_def cleanupTemp_cleaned)
  show "cleaned env (add_src env component w)" by (simp add: add_src_def cleanupTemp_cleaned)
  show "cleaned env (init_src env w)" by (simp add: init_src_def cleanupTemp_cleaned)
  show "cleaned env (list_src env w)" by (simp add: list_src_def cleanupTemp_cleaned)
qed (simp_all add: add_cli_def init_cli_def list_cli_def add_src_def init_src_def list_src_def
       cleanupTemp_spinner stage)

theorem failures_are_reported_witness:
  "add_src_try (online catalog) ''button'' (spun (Start ''Fetching component...'') empty_directory) =
     (Inl (Error NotAProject
        ''No package.json found. Please run this command in a Node.js project.''),
      spun (Start ''Fetching component...'') empty_directory)
   \<and> spinner (add_src (online catalog) ''button'' empty_directory) =
       [Start ''Fetching component...'',
        Fail (''Failed to add component: No package.json found. ''
                @ ''Please run this command in a Node.js project.'')]
   \<and> list_src_try offline (spun (Start ''Fetching components...'') empty_directory) =
     (Inl (Error GitError ''fatal: unable to access the remote repository''),
      snd (list_src_try offline (spun (Start ''Fetching components...'') empty_directory)))
   \<and> spinner (list_src offline empty_directory) =
       [Start ''Fetching components...'',
        Fail ''Failed to fetch components: fatal: unable to access the remote repository'']
   \<and> lookup (files (list_src offline empty_directory)) TEMP_DIR = None"
proof -
  have a: "add_src_try (online catalog) ''button''
             (spun (Start ''Fetching component...'') empty_directory) =
     (Inl (Error NotAProject
        ''No package.json found. Please run this command in a Node.js project.''),
      spun (Start ''Fetching component...'') empty_directory)"
    unfolding add_src_try_def
    by (rule checkProjectConfig_missing)
       (simp add: stage empty_directory_def fresh_def lookup.simps)
  have l: "list_src_try offline (spun (Start ''Fetching components...'') empty_directory) =
     (Inl (Error GitError ''fatal: unable to access the remote repository''),
      snd (list_src_try offline (spun (Start ''Fetching components...'') empty_directory)))"
    by (rule prod_eqI) (simp_all add: list_src_try_def bnd_alt stage git_clone_fst ensureDir_at
         ensureDir_top offline_def empty_directory_def fresh_def lookup_empty)
  have s: "spinner (snd (list_src_try offline
             (spun (Start ''Fetching components...'') empty_directory))) =
           [Start ''Fetching components...'']"
    by (simp add: list_src_try_def bnd_alt stage git_clone_fst ensureDir_at
         ensureDir_top offline_def empty_directory_def fresh_def lookup_empty)
  have r: "rm_failure offline = None" by (simp add: offline_def)
  have e: "spinner empty_directory = []" by (simp add: empty_directory_def fresh_def)
  note A0 = failures_are_reported[of "online catalog" "''button''" empty_directory
      "Error NotAProject ''No package.json found. Please run this command in a Node.js project.''"
      "spun (Start ''Fetching component...'') empty_directory",
      THEN conjunct2, THEN conjunct2, THEN conjunct2, THEN conjunct1, THEN mp, OF a]
  from A0 e
  have A: "spinner (add_src (online catalog) ''button'' empty_directory) =
       [Start ''Fetching component...'',
        Fail (''Failed to add component: No package.json found. ''
                @ ''Please run this command in a Node.js project.'')]"
    by (simp add: stage cleanupTemp_spinner)
  note L0 = failures_are_reported[of offline "''button''" empty_directory
      "Error GitError ''fatal: unable to access the remote repository''"
      "snd (list_src_try offline (spun (Start ''Fetching components...'') empty_directory))",
      THEN conjunct2, THEN conjunct2, THEN conjunct2, THEN conjunct2, THEN conjunct2,
      THEN mp, OF l]
  from L0 s r
  have L: "spinner (list_src offline empty_directory) =
       [Start ''Fetching components...'',
        Fail ''Failed to fetch components: fatal: unable to access the remote repository'']
     \<and> lookup (files (list_src offline empty_directory)) TEMP_DIR = None"
    by (simp add: cleaned_def stage cleanupTemp_spinner cleanupTemp_scratch)
  from a l A L show ?thesis by blast
qed

section \<open>The scratch directory before the clone\<close>

lemma ensureDir_existing:
  "lookup (files w) [n] = Some (Dir ds) \<Longrightarrow> ensureDir [n] w = (Inr (), w)"
  by (simp add: ensureDir_def lookup_single update_triv)

lemma git_clone_stale:
  "lookup (files w) TEMP_DIR = Some (Dir ds) \<Longrightarrow> ds \<noteq> [] \<Longrightarrow>
   git_clone env TEMP_DIR w = (Inl refusal, w)"
  by (simp add: git_clone_TEMP_DIR lookup_single refusal_def showPath_def)

lemma checkProjectConfig_present:
  "lookup (files w) [''package.json''] \<noteq> None \<Longrightarrow> checkProjectConfig w = (Inr (), w)"
  by (rule prod_eqI) (simp_all add: stage)

lemma stale_blocks:
  assumes "ds \<noteq> []"
  shows "hoare (\<lambda>w. lookup (files w) TEMP_DIR = Some (Dir ds) \<and> clones w = n)
           (bnd (git_clone env TEMP_DIR) f) (\<lambda>x w. False)
           (\<lambda>e w. lookup (files w) TEMP_DIR = Some (Dir ds) \<and> clones w = n)"
  using assms by (simp add: hoare_def bnd_def git_clone_stale)

lemma stale_ensureDir:
  "\<not> prefix TEMP_DIR p \<or> p = TEMP_DIR \<Longrightarrow>
   hoare (\<lambda>w. lookup (files w) TEMP_DIR = Some (Dir ds) \<and> clones w = n)
     (ensureDir p) (\<lambda>x w. lookup (files w) TEMP_DIR = Some (Dir ds) \<and> clones w = n)
     (\<lambda>e w. lookup (files w) TEMP_DIR = Some (Dir ds) \<and> clones w = n)"
  by (auto simp: hoare_def stage ensureDir_frame ensureDir_existing simp del: ensureDir_fst)

lemma stale_checkProjectConfig:
  "hoare (\<lambda>w. lookup (files w) TEMP_DIR = Some (Dir ds) \<and> clones w = n)
     checkProjectConfig (\<lambda>x w. lookup (files w) TEMP_DIR = Some (Dir ds) \<and> clones w = n)
     (\<lambda>e w. lookup (files w) TEMP_DIR = Some (Dir ds) \<and> clones w = n)"
  by (simp add: hoare_def stage)

lemma stale_kept_hoare:
  assumes "hoare (\<lambda>v. lookup (files v) TEMP_DIR = Some (Dir ds) \<and> clones v = clones w) m
             (\<lambda>x v. False)
             (\<lambda>e v. lookup (files v) TEMP_DIR = Some (Dir ds) \<and> clones v = clones w)"
      and "lookup (files w) TEMP_DIR = Some (Dir ds)"
  shows "stale_kept ds w (m w)"
  using hoare_fails[OF assms(1), of w] assms(2) by (auto simp: stale_kept_def)

lemma stale_add_cli:
  "ds \<noteq> [] \<Longrightarrow>
   hoare (\<lambda>w. lookup (files w) TEMP_DIR = Some (Dir ds) \<and> clones w = n)
     (add_cli_try env component) (\<lambda>x w. False)
     (\<lambda>e w. lookup (files w) TEMP_DIR = Some (Dir ds) \<and> clones w = n)"
  unfolding add_cli_try_def
  by (intro hoare_bnd[OF stale_checkProjectConfig] hoare_bnd[OF stale_ensureDir] stale_blocks)
     simp_all

lemma stale_add_src:
  "ds \<noteq> [] \<Longrightarrow>
   hoare (\<lambda>w. lookup (files w) TEMP_DIR = Some (Dir ds) \<and> clones w = n)
     (add_src_try env component) (\<lambda>x w. False)
     (\<lambda>e w. lookup (files w) TEMP_DIR = Some (Dir ds) \<and> clones w = n)"
  unfolding add_src_try_def
  by (intro hoare_bnd[OF stale_checkProjectConfig] hoare_bnd[OF stale_ensureDir] stale_blocks)
     simp_all

lemma stale_init_cli:
  "ds \<noteq> [] \<Longrightarrow>
   hoare (\<lambda>w. lookup (files w) TEMP_DIR = Some (Dir ds) \<and> clones w = n)
     (init_cli_try env) (\<lambda>x w. False)
     (\<lambda>e w. lookup (files w) TEMP_DIR = Some (Dir ds) \<and> clones w = n)"
  unfolding init_cli_try_def
  by (intro hoare_bnd[OF stale_checkProjectConfig] hoare_bnd[OF stale_ensureDir] stale_blocks)
     simp_all

lemma stale_init_src:
  "ds \<noteq> [] \<Longrightarrow>
   hoare (\<lambda>w. lookup (files w) TEMP_DIR = Some (Dir ds) \<and> clones w = n)
     (init_src_try env) (\<lambda>x w. False)
     (\<lambda>e w. lookup (files w) TEMP_DIR = Some (Dir ds) \<and> clones w = n)"
  unfolding init_src_try_def
  by (intro hoare_bnd[OF stale_checkProjectConfig] hoare_bnd[OF stale_ensureDir] stale_blocks)
     simp_all

lemma stale_list_cli:
  "lookup (files w) TEMP_DIR = Some (Dir ds) \<Longrightarrow> ds \<noteq> [] \<Longrightarrow>
   list_cli_try env w = (Inl refusal, w)"
  by (simp add: list_cli_try_def bnd_def ensureDir_existing git_clone_stale)

lemma stale_list_src:
  "lookup (files w) TEMP_DIR = Some (Dir ds) \<Longrightarrow> ds \<noteq> [] \<Longrightarrow>
   list_src_try env w = (Inl refusal, w)"
  by (simp add: list_src_try_def bnd_def ensureDir_existing git_clone_stale)

lemma stale_add_cli_exact:
  "lookup (files w) TEMP_DIR = Some (Dir ds) \<Longrightarrow> ds \<noteq> [] \<Longrightarrow>
   lookup (files w) [''package.json''] \<noteq> None \<Longrightarrow>
   add_cli_try env component w = (Inl refusal, w)"
  by (simp add: add_cli_try_def bnd_def ensureDir_existing git_clone_stale
        checkProjectConfig_present)

lemma fresh_fetch:
  assumes "lookup (files w) TEMP_DIR = None \<or> lookup (files w) TEMP_DIR = Some (Dir [])"
      and "remote env = Inr repo"
  shows "fst (git_clone env TEMP_DIR w) = Inr ()"
    and "lookup (files (snd (git_clone env TEMP_DIR w))) TEMP_DIR = Some (Dir repo)"
    and "fst (bnd (ensureDir TEMP_DIR) (\<lambda>u. git_clone env TEMP_DIR) w) = Inr ()"
    and "lookup (files (snd (bnd (ensureDir TEMP_DIR) (\<lambda>u. git_clone env TEMP_DIR) w))) TEMP_DIR
           = Some (Dir repo)"
proof -
  show c: "fst (git_clone env TEMP_DIR w) = Inr ()"
    using assms by (auto simp: git_clone_fst)
  show "lookup (files (snd (git_clone env TEMP_DIR w))) TEMP_DIR = Some (Dir repo)"
    using git_clone_fetched[OF c assms(2), of "[]"] by (simp add: lookup.simps)
  have e: "fst (ensureDir TEMP_DIR w) = Inr ()"
    using assms(1) by (intro ensureDir_top) auto
  have t: "lookup (files (snd (ensureDir TEMP_DIR w))) TEMP_DIR = Some (Dir [])"
    using assms(1) ensureDir_at[OF e] by auto
  have c': "fst (git_clone env TEMP_DIR (snd (ensureDir TEMP_DIR w))) = Inr ()"
    using t assms(2) by (simp add: git_clone_fst)
  show "fst (bnd (ensureDir TEMP_DIR) (\<lambda>u. git_clone env TEMP_DIR) w) = Inr ()"
    using e c' by (simp add: bnd_alt)
  show "lookup (files (snd (bnd (ensureDir TEMP_DIR) (\<lambda>u. git_clone env TEMP_DIR) w))) TEMP_DIR
           = Some (Dir repo)"
    using e git_clone_fetched[OF c' assms(2), of "[]"] by (simp add: bnd_alt lookup.simps)
qed




section \<open>The manifest after \<^verbatim>\<open>init\<close>\<close>

lemma writeFile_frame:
  "\<not> prefix q p \<Longrightarrow> \<not> prefix p q \<Longrightarrow>
   lookup (files (snd (writeFile p c w))) q = lookup (files w) q"
  by (simp add: writeFile_def lookup_alter_frame split: option.splits node.splits)

lemma writeFile_top:
  "fst (writeFile [n] c w) = Inr () \<Longrightarrow>
   lookup (files (snd (writeFile [n] c w))) [n] = Some (File c)"
  by (auto simp: writeFile_def lookup_single update_conv' split: option.splits node.splits)

lemma modifyTailwindConfig_frame:
  "\<not> prefix q p \<Longrightarrow> \<not> prefix p q \<Longrightarrow>
   lookup (files (snd (modifyTailwindConfig p w))) q = lookup (files w) q"
  by (simp add: modifyTailwindConfig_def bnd_alt stage writeFile_frame split: sum.splits)

lemma readJson_returned:
  "fst (readJson env p w) = Inr j \<Longrightarrow>
   \<exists>text. lookup (files w) p = Some (File text) \<and> parseJson env text = Some j"
  by (auto simp: readJson_def bnd_alt stage split: option.splits node.splits sum.splits)

lemma nextSteps_files: "files (snd (nextSteps line w)) = files w"
  by (simp add: nextSteps_def bnd_alt stage)

lemma manifest_kept_ensureDir:
  "\<not> prefix [''package.json''] p \<Longrightarrow>
   hoare (\<lambda>w. lookup (files w) [''package.json''] = t) (ensureDir p)
     (\<lambda>x w. lookup (files w) [''package.json''] = t) (\<lambda>e w. True)"
  by (simp add: hoare_def ensureDir_frame)

lemma manifest_kept_copy:
  "\<not> prefix [''package.json''] dest \<Longrightarrow> \<not> prefix dest [''package.json''] \<Longrightarrow>
   hoare (\<lambda>w. lookup (files w) [''package.json''] = t) (copy src dest)
     (\<lambda>x w. lookup (files w) [''package.json''] = t) (\<lambda>e w. True)"
  by (simp add: hoare_def copy_frame)

lemma manifest_kept_reads:
  "hoare (\<lambda>w. lookup (files w) [''package.json''] = t) checkProjectConfig
     (\<lambda>x w. lookup (files w) [''package.json''] = t) (\<lambda>e w. True)"
  "hoare (\<lambda>w. lookup (files w) [''package.json''] = t) (checkVersion env)
     (\<lambda>x w. lookup (files w) [''package.json''] = t) (\<lambda>e w. True)"
  "hoare (\<lambda>w. lookup (files w) [''package.json''] = t) (git_clone env TEMP_DIR)
     (\<lambda>x w. lookup (files w) [''package.json''] = t) (\<lambda>e w. True)"
  "hoare (\<lambda>w. lookup (files w) [''package.json''] = t) (modifyTailwindConfig [''tailwind.config.js''])
     (\<lambda>x w. lookup (files w) [''package.json''] = t) (\<lambda>e w. True)"
  by (simp_all add: hoare_def stage git_clone_frame modifyTailwindConfig_frame)

lemma manifest_written:
  assumes t: "t = Some (File text)" and p: "parseJson env text = Some (JObj m)"
  shows "hoare (\<lambda>w. lookup (files w) [''package.json''] = t)
     (bnd (readJson env [''package.json'']) (\<lambda>packageJson.
      bnd (lift (updatePackageJson packageJson)) (\<lambda>updated.
      bnd (writeJson env [''package.json''] updated) (\<lambda>u9.
      bnd (spin (Succeed ''Successfully initialized solo-ui!'')) (\<lambda>u10.
      nextSteps line)))))
     (\<lambda>x w. lookup (files w) [''package.json''] =
               Some (File (stringifyJson env (JObj (manifestFields m)))))
     (\<lambda>e w. True)"
  apply (rule hoare_bnd[where R="\<lambda>j w. j = JObj m"])
   apply (insert t p)[1]
   apply (auto simp: hoare_def dest!: readJson_returned)[1]
  apply (rule hoare_bnd[where R="\<lambda>j w. j = JObj (manifestFields m)"])
   apply (auto simp: hoare_def stage)[1]
  apply (rule hoare_bnd[where R="\<lambda>x w. lookup (files w) [''package.json''] =
               Some (File (stringifyJson env (JObj (manifestFields m))))"])
   apply (simp add: hoare_def writeJson_def writeFile_top)
  apply (rule hoare_bnd[where R="\<lambda>x w. lookup (files w) [''package.json''] =
               Some (File (stringifyJson env (JObj (manifestFields m))))"])
   apply (simp add: hoare_def stage)
  apply (simp add: hoare_def nextSteps_files)
  done

lemma init_cli_try_manifest:
  assumes "t = Some (File text)" and "parseJson env text = Some (JObj m)"
  shows "hoare (\<lambda>w. lookup (files w) [''package.json''] = t) (init_cli_try env)
     (\<lambda>x w. lookup (files w) [''package.json''] =
               Some (File (stringifyJson env (JObj (manifestFields m)))))
     (\<lambda>e w. True)"
  unfolding init_cli_try_def
  by (intro hoare_bnd[OF manifest_kept_reads(1)] hoare_bnd[OF manifest_kept_reads(2)]
        hoare_bnd[OF manifest_kept_reads(3)] hoare_bnd[OF manifest_kept_ensureDir]
        hoare_bnd[OF manifest_kept_copy] manifest_written[OF assms])
     simp_all

lemma init_src_try_manifest:
  assumes "t = Some (File text)" and "parseJson env text = Some (JObj m)"
  shows "hoare (\<lambda>w. lookup (files w) [''package.json''] = t) (init_src_try env)
     (\<lambda>x w. lookup (files w) [''package.json''] =
               Some (File (stringifyJson env (JObj (manifestFields m)))))
     (\<lambda>e w. True)"
  unfolding init_src_try_def
  by (intro hoare_bnd[OF manifest_kept_reads(1)] hoare_bnd[OF manifest_kept_reads(4)]
        hoare_bnd[OF manifest_kept_reads(3)] hoare_bnd[OF manifest_kept_ensureDir]
        hoare_bnd[OF manifest_kept_copy] manifest_written[OF assms])
     simp_all

lemma manifestFields_devDependencies:
  "\<exists>dev. map_of (manifestFields m) ''devDependencies'' = Some (JObj dev)
     \<and> (\<forall>k. map_of dev k =
           (if k = ''tailwindcss'' then Some (JStr ''^3.4.0'')
            else if k = ''postcss'' then Some (JStr ''^8.4.0'')
            else if k = ''autoprefixer'' then Some (JStr ''^10.4.0'')
            else map_of (devEntries m) k))"
  by (auto simp: manifestFields_def devEntries_def Let_def update_conv'
        split: option.splits)

lemma manifestFields_dependencies:
  "map_of (manifestFields m) ''dependencies'' =
     (if truthy (map_of m ''dependencies'') then map_of m ''dependencies'' else Some (JObj []))"
  by (simp add: manifestFields_def Let_def update_conv')

lemma manifestFields_others:
  "k \<noteq> ''dependencies'' \<Longrightarrow> k \<noteq> ''devDependencies'' \<Longrightarrow>
   map_of (manifestFields m) k = map_of m k"
  by (simp add: manifestFields_def Let_def update_conv')

text \<open>
  C6, as the code has it. When \<^verbatim>\<open>package.json\<close> holds the text of a manifest object and
  \<^verbatim>\<open>init\<close> succeeds, the file is rewritten with the updated object: \<^verbatim>\<open>devDependencies\<close>
  has the three fixed entries (\<^verbatim>\<open>tailwindcss ^3.4.0\<close>, \<^verbatim>\<open>postcss ^8.4.0\<close>,
  \<^verbatim>\<open>autoprefixer ^10.4.0\<close>, replacing entries of these names) and every other entry it had
  before; \<^verbatim>\<open>dependencies\<close> is kept when it was there and truthy and is the empty object
  otherwise; every other field is unchanged.
\<close>

theorem init_updates_manifest:
  assumes "lookup (files w) [''package.json''] = Some (File text)"
      and "parseJson env text = Some (JObj m)"
  shows "(fst (init_cli_try env (spun (Start ''Initializing solo-ui...'') w)) = Inr () \<longrightarrow>
            lookup (files (init_cli env w)) [''package.json''] =
              Some (File (stringifyJson env (JObj (manifestFields m)))))
       \<and> (fst (init_src_try env (spun (Start ''Initializing solo-ui...'') w)) = Inr () \<longrightarrow>
            lookup (files (init_src env w)) [''package.json''] =
              Some (File (stringifyJson env (JObj (manifestFields m)))))
       \<and> (\<exists>dev. map_of (manifestFields m) ''devDependencies'' = Some (JObj dev)
             \<and> (\<forall>k. map_of dev k =
                   (if k = ''tailwindcss'' then Some (JStr ''^3.4.0'')
                    else if k = ''postcss'' then Some (JStr ''^8.4.0'')
                    else if k = ''autoprefixer'' then Some (JStr ''^10.4.0'')
                    else map_of (devEntries m) k)))
       \<and> map_of (manifestFields m) ''dependencies'' =
            (if truthy (map_of m ''dependencies'') then map_of m ''dependencies''
             else Some (JObj []))
       \<and> (\<forall>k. k \<noteq> ''dependencies'' \<and> k \<noteq> ''devDependencies'' \<longrightarrow>
             map_of (manifestFields m) k = map_of m k)"
proof (intro conjI impI allI)
  let ?w0 = "spun (Start ''Initializing solo-ui...'') w"
  have w0: "lookup (files ?w0) [''package.json''] = Some (File text)"
    using assms(1) by (simp add: stage)
  show "lookup (files (init_cli env w)) [''package.json''] =
              Some (File (stringifyJson env (JObj (manifestFields m))))"
    if ok: "fst (init_cli_try env ?w0) = Inr ()"
    using hoare_returned[OF init_cli_try_manifest[OF refl assms(2)] w0 ok] ok
    by (simp add: init_cli_def split_beta cleanupTemp_frame)
  show "lookup (files (init_src env w)) [''package.json''] =
              Some (File (stringifyJson env (JObj (manifestFields m))))"
    if ok: "fst (init_src_try env ?w0) = Inr ()"
    using hoare_returned[OF init_src_try_manifest[OF refl assms(2)] w0 ok] ok
    by (simp add: init_src_def split_beta cleanupTemp_frame)
  show "\<exists>dev. map_of (manifestFields m) ''devDependencies'' = Some (JObj dev)
             \<and> (\<forall>k. map_of dev k =
                   (if k = ''tailwindcss'' then Some (JStr ''^3.4.0'')
                    else if k = ''postcss'' then Some (JStr ''^8.4.0'')
                    else if k = ''autoprefixer'' then Some (JStr ''^10.4.0'')
                    else map_of (devEntries m) k))"
    by (rule manifestFields_devDependencies)
  show "map_of (manifestFields m) ''dependencies'' =
            (if truthy (map_of m ''dependencies'') then map_of m ''dependencies''
             else Some (JObj []))"
    by (rule manifestFields_dependencies)
  show "map_of (manifestFields m) k = map_of m k"
    if "k \<noteq> ''dependencies'' \<and> k \<noteq> ''devDependencies''" for k
    using that by (simp add: manifestFields_others)
qed

lemma app_init:
  "fst (init_src_try (reading ''app'' (JObj [(''name'', JStr ''app'')]) catalog)
          (spun (Start ''Initializing solo-ui...'') app_project)) = Inr ()"
  by code_simp

theorem init_updates_manifest_witness:
  "lookup (files app_project) [''package.json''] = Some (File ''app'')
   \<and> parseJson (reading ''app'' (JObj [(''name'', JStr ''app'')]) catalog) ''app'' =
        Some (JObj [(''name'', JStr ''app'')])
   \<and> fst (init_src_try (reading ''app'' (JObj [(''name'', JStr ''app'')]) catalog)
          (spun (Start ''Initializing solo-ui...'') app_project)) = Inr ()
   \<and> lookup (files (init_src (reading ''app'' (JObj [(''name'', JStr ''app'')]) catalog)
                 app_project)) [''package.json''] =
        Some (File (field_names (JObj (manifestFields [(''name'', JStr ''app'')]))))
   \<and> map_of (manifestFields [(''name'', JStr ''app'')]) ''name'' = Some (JStr ''app'')"
proof -
  have h1: "lookup (files app_project) [''package.json''] = Some (File ''app'')"
    by (simp add: app_project_def fresh_def lookup.simps)
  have h2: "parseJson (reading ''app'' (JObj [(''name'', JStr ''app'')]) catalog) ''app'' =
        Some (JObj [(''name'', JStr ''app'')])"
    by (simp add: reading_def)
  have s: "stringifyJson (reading ''app'' (JObj [(''name'', JStr ''app'')]) catalog) = field_names"
    by (simp add: reading_def)
  from init_updates_manifest[OF h1 h2] app_init s h1 h2
  show ?thesis by simp
qed

text \<open>
  C6, as it is stated, fails: \<^verbatim>\<open>init\<close> on a manifest with the single field \<^verbatim>\<open>name\<close> writes
  a manifest with the fields \<^verbatim>\<open>name\<close>, \<^verbatim>\<open>dependencies\<close> and \<^verbatim>\<open>devDependencies\<close>: the field
  \<^verbatim>\<open>dependencies\<close> was added, as an empty object.
\<close>

theorem manifest_gains_dependencies_counterexample:
  "lookup (files app_project) [''package.json''] = Some (File ''app'')
   \<and> parseJson (reading ''app'' (JObj [(''name'', JStr ''app'')]) catalog) ''app'' =
        Some (JObj [(''name'', JStr ''app'')])
   \<and> last (spinner (init_src (reading ''app'' (JObj [(''name'', JStr ''app'')]) catalog)
                      app_project)) = Succeed ''Successfully initialized solo-ui!''
   \<and> lookup (files (init_src (reading ''app'' (JObj [(''name'', JStr ''app'')]) catalog)
                 app_project)) [''package.json''] =
        Some (File ''name;dependencies;devDependencies;'')
   \<and> updatePackageJson (JObj [(''name'', JStr ''app'')]) =
        Inr (JObj [(''name'', JStr ''app''),
                   (''dependencies'', JObj []),
                   (''devDependencies'',
                      JObj [(''tailwindcss'', JStr ''^3.4.0''), (''postcss'', JStr ''^8.4.0''),
                            (''autoprefixer'', JStr ''^10.4.0'')])])"
  by code_simp

section \<open>A styled component in a project without the global stylesheet\<close>

lemma add_src_try_no_stylesheet:
  assumes n: "valid_name component"
      and r: "remote env = Inr repo"
      and f: "lookup repo [''packages'', ''components'', component, ''styles.css''] = Some (File f)"
  shows "hoare (\<lambda>w. lookup (files w) globalStylePath_src = None)
           (add_src_try env component)
           (\<lambda>x w. False)
           (\<lambda>e w. lookup (files w) globalStylePath_src = None)"
  unfolding add_src_try_def Let_def
  apply (insert n)
  apply (rule hoare_bnd[where R="\<lambda>x w. lookup (files w) globalStylePath_src = None"])
   apply (simp add: hoare_def stage)
  apply (rule hoare_bnd[where R="\<lambda>x w. lookup (files w) globalStylePath_src = None"])
   apply (simp add: hoare_def ensureDir_frame)
  apply (rule hoare_bnd[where R="\<lambda>x w. lookup (files w) globalStylePath_src = None"])
   apply (simp add: hoare_def ensureDir_frame)
  apply (rule hoare_bnd[where R="\<lambda>x w. lookup (files w) globalStylePath_src = None
           \<and> lookup (files w) [''.solo-ui-temp'', ''packages'', ''components'', component, ''styles.css'']
               = Some (File f)"])
   apply (simp add: hoare_def git_clone_frame git_clone_fetched[OF _ r] f)
  apply (rule hoare_bnd[where R="\<lambda>x w. lookup (files w) globalStylePath_src = None
           \<and> lookup (files w) [''.solo-ui-temp'', ''packages'', ''components'', component, ''styles.css'']
               = Some (File f)"])
   apply (simp add: hoare_def stage)
  apply (rule hoare_bnd[where R="\<lambda>x w. lookup (files w) globalStylePath_src = None
           \<and> lookup (files w) [''.solo-ui-temp'', ''packages'', ''components'', component, ''styles.css'']
               = Some (File f)"])
   apply (simp add: hoare_def stage)
  apply (rule hoare_if)
   apply (simp add: hoare_def stage)
  apply (rule hoare_bnd[where R="\<lambda>x w. lookup (files w) globalStylePath_src = None
           \<and> lookup (files w) [''.solo-ui-temp'', ''packages'', ''components'', component, ''styles.css'']
               = Some (File f)"])
   apply (simp add: hoare_def copy_frame)
  apply (rule hoare_bnd[where R="\<lambda>x w. False"])
   apply (simp add: hoare_def mergeStyles_no_global)
  apply (rule hoare_never)
  done

lemma add_cli_try_no_stylesheet:
  assumes n: "valid_name component"
      and r: "remote env = Inr repo"
      and f: "lookup repo [''components'', component, ''styles.css''] = Some (File f)"
  shows "hoare (\<lambda>w. lookup (files w) globalStylePath_cli = None)
           (add_cli_try env component)
           (\<lambda>x w. False)
           (\<lambda>e w. lookup (files w) globalStylePath_cli = None)"
  unfolding add_cli_try_def Let_def
  apply (insert n)
  apply (rule hoare_bnd[where R="\<lambda>x w. lookup (files w) globalStylePath_cli = None"])
   apply (simp add: hoare_def stage)
  apply (rule hoare_bnd[where R="\<lambda>x w. lookup (files w) globalStylePath_cli = None"])
   apply (simp add: hoare_def ensureDir_frame)
  apply (rule hoare_bnd[where R="\<lambda>x w. lookup (files w) globalStylePath_cli = None
           \<and> lookup (files w) [''.solo-ui-temp'', ''components'', component, ''styles.css'']
               = Some (File f)"])
   apply (simp add: hoare_def git_clone_frame git_clone_fetched[OF _ r] f)
  apply (rule hoare_bnd[where R="\<lambda>x w. lookup (files w) globalStylePath_cli = None
           \<and> lookup (files w) [''.solo-ui-temp'', ''components'', component, ''styles.css'']
               = Some (File f)"])
   apply (simp add: hoare_def stage)
  apply (rule hoare_bnd[where R="\<lambda>x w. lookup (files w) globalStylePath_cli = None
           \<and> lookup (files w) [''.solo-ui-temp'', ''components'', component, ''styles.css'']
               = Some (File f)"])
   apply (simp add: hoare_def stage)
  apply (rule hoare_bnd[where R="\<lambda>x w. lookup (files w) globalStylePath_cli = None
           \<and> lookup (files w) [''.solo-ui-temp'', ''components'', component, ''styles.css'']
               = Some (File f)"])
   apply (simp add: hoare_def stage)
  apply (rule hoare_if)
   apply (simp add: hoare_def stage)
  apply (rule hoare_bnd[where R="\<lambda>x w. lookup (files w) globalStylePath_cli = None
           \<and> lookup (files w) [''.solo-ui-temp'', ''components'', component, ''styles.css'']
               = Some (File f)"])
   apply (simp add: hoare_def copy_frame)
  apply (rule hoare_bnd[where R="\<lambda>x w. False"])
   apply (simp add: hoare_def mergeStyles_no_global)
  apply (rule hoare_never)
  done

text \<open>
  C10. When the component has a \<^verbatim>\<open>styles.css\<close> file and the global stylesheet of the project
  does not exist, \<^verbatim>\<open>mergeStyles\<close> fails with the error of reading the global stylesheet
  (\<^verbatim>\<open>ENOENT\<close>) and changes nothing; whatever the component has, \<^verbatim>\<open>mergeStyles\<close> does not
  create a global stylesheet that was missing. So \<^verbatim>\<open>add\<close> of a component whose fetched
  directory has a \<^verbatim>\<open>styles.css\<close> file, in a project without the global stylesheet, fails
  (at the merge, if not before), reports the failure, and the global stylesheet is still
  missing afterwards. This holds for both files, each with its own paths.
\<close>

theorem merge_needs_global_stylesheet:
  "(lookup (files w) (cp @ [''styles.css'']) = Some (File f) \<and> lookup (files w) g = None \<longrightarrow>
      mergeStyles g cp w = (Inl (fsError ''ENOENT'' g), w))
 \<and> (lookup (files w) g = None \<longrightarrow> lookup (files (snd (mergeStyles g cp w))) g = None)
 \<and> (valid_name component \<and> remote env = Inr repo
      \<and> lookup repo [''packages'', ''components'', component, ''styles.css''] = Some (File f)
      \<and> lookup (files w) globalStylePath_src = None \<longrightarrow>
      (\<exists>e. fst (add_src_try env component (spun (Start ''Fetching component...'') w)) = Inl e
          \<and> last (spinner (add_src env component w)) =
              Fail (''Failed to add component: '' @ errorMessage e))
      \<and> lookup (files (add_src env component w)) globalStylePath_src = None)
 \<and> (valid_name component \<and> remote env = Inr repo
      \<and> lookup repo [''components'', component, ''styles.css''] = Some (File f)
      \<and> lookup (files w) globalStylePath_cli = None \<longrightarrow>
      (\<exists>e. fst (add_cli_try env component (spun (Start ''Fetching component...'') w)) = Inl e
          \<and> last (spinner (add_cli env component w)) =
              Fail (''Failed to add component: '' @ errorMessage e))
      \<and> lookup (files (add_cli env component w)) globalStylePath_cli = None)"
proof (intro conjI impI)
  let ?w0 = "spun (Start ''Fetching component...'') w"
  show "mergeStyles g cp w = (Inl (fsError ''ENOENT'' g), w)"
    if "lookup (files w) (cp @ [''styles.css'']) = Some (File f) \<and> lookup (files w) g = None"
    using that mergeStyles_no_global[of w g cp] by simp
  show "lookup (files (snd (mergeStyles g cp w))) g = None" if "lookup (files w) g = None"
    using that mergeStyles_no_global[OF that, of cp]
    by (simp split: option.splits node.splits)
  {
    assume h: "valid_name component \<and> remote env = Inr repo
      \<and> lookup repo [''packages'', ''components'', component, ''styles.css''] = Some (File f)
      \<and> lookup (files w) globalStylePath_src = None"
    then have g0: "lookup (files ?w0) globalStylePath_src = None" by (simp add: stage)
    from h have "hoare (\<lambda>w. lookup (files w) globalStylePath_src = None)
           (add_src_try env component) (\<lambda>x w. False)
           (\<lambda>e w. lookup (files w) globalStylePath_src = None)"
      by (intro add_src_try_no_stylesheet[where f=f and repo=repo]) simp_all
    from hoare_fails[OF this g0] obtain e where
      e: "fst (add_src_try env component ?w0) = Inl e"
        "lookup (files (snd (add_src_try env component ?w0))) globalStylePath_src = None"
      by blast
    from e(1) have "last (spinner (add_src env component w)) =
              Fail (''Failed to add component: '' @ errorMessage e)"
      by (simp add: add_src_def split_beta cleanupTemp_spinner stage)
    with e(1) show "\<exists>e. fst (add_src_try env component ?w0) = Inl e
          \<and> last (spinner (add_src env component w)) =
              Fail (''Failed to add component: '' @ errorMessage e)" by blast
    from e show "lookup (files (add_src env component w)) globalStylePath_src = None"
      by (simp add: add_src_def split_beta cleanupTemp_frame stage)
  }
  {
    assume h: "valid_name component \<and> remote env = Inr repo
      \<and> lookup repo [''components'', component, ''styles.css''] = Some (File f)
      \<and> lookup (files w) globalStylePath_cli = None"
    then have g0: "lookup (files ?w0) globalStylePath_cli = None" by (simp add: stage)
    from h have "hoare (\<lambda>w. lookup (files w) globalStylePath_cli = None)
           (add_cli_try env component) (\<lambda>x w. False)
           (\<lambda>e w. lookup (files w) globalStylePath_cli = None)"
      by (intro add_cli_try_no_stylesheet[where f=f and repo=repo]) simp_all
    from hoare_fails[OF this g0] obtain e where
      e: "fst (add_cli_try env component ?w0) = Inl e"
        "lookup (files (snd (add_cli_try env component ?w0))) globalStylePath_cli = None"
      by blast
    from e(1) have "last (spinner (add_cli env component w)) =
              Fail (''Failed to add component: '' @ errorMessage e)"
      by (simp add: add_cli_def split_beta cleanupTemp_spinner stage)
    with e(1) show "\<exists>e. fst (add_cli_try env component ?w0) = Inl e
          \<and> last (spinner (add_cli env component w)) =
              Fail (''Failed to add component: '' @ errorMessage e)" by blast
    from e show "lookup (files (add_cli env component w)) globalStylePath_cli = None"
      by (simp add: add_cli_def split_beta cleanupTemp_frame stage)
  }
qed

theorem merge_needs_global_stylesheet_witness:
  "lookup (files fetched_project)
      ([''.solo-ui-temp'', ''packages'', ''components'', ''button''] @ [''styles.css'']) =
      Some (File ''.btn{}'')
   \<and> lookup (files fetched_project) globalStylePath_src = None
   \<and> mergeStyles globalStylePath_src [''.solo-ui-temp'', ''packages'', ''components'', ''button'']
        fetched_project = (Inl (fsError ''ENOENT'' globalStylePath_src), fetched_project)
   \<and> valid_name ''button'' \<and> remote (online catalog) = Inr catalog
   \<and> lookup catalog [''packages'', ''components'', ''button'', ''styles.css''] =
        Some (File ''.btn{}'')
   \<and> lookup (files node_project) globalStylePath_src = None
   \<and> lookup (files (add_src (online catalog) ''button'' node_project)) globalStylePath_src = None
   \<and> last (spinner (add_src (online catalog) ''button'' node_project)) =
        Fail ''Failed to add component: ENOENT: /src/styles/globals.css''"
proof -
  have m1: "lookup (files fetched_project)
      ([''.solo-ui-temp'', ''packages'', ''components'', ''button''] @ [''styles.css'']) =
      Some (File ''.btn{}'') \<and> lookup (files fetched_project) globalStylePath_src = None"
    by (simp add: fetched_project_def fresh_def catalog_def lookup.simps)
  have h: "valid_name ''button'' \<and> remote (online catalog) = Inr catalog
      \<and> lookup catalog [''packages'', ''components'', ''button'', ''styles.css''] =
          Some (File ''.btn{}'')
      \<and> lookup (files node_project) globalStylePath_src = None"
    by (simp add: valid_name_def online_def catalog_def node_project_def fresh_def lookup.simps)
  note T = merge_needs_global_stylesheet[of fetched_project
      "[''.solo-ui-temp'', ''packages'', ''components'', ''button'']" "''.btn{}''"
      globalStylePath_src]
  note A = merge_needs_global_stylesheet[of node_project _ "''.btn{}''" _ "''button''"
      "online catalog" catalog, THEN conjunct2, THEN conjunct2, THEN conjunct1, THEN mp, OF h]
  have s: "last (spinner (add_src (online catalog) ''button'' node_project)) =
        Fail ''Failed to add component: ENOENT: /src/styles/globals.css''"
    by code_simp
  from T[THEN conjunct1, THEN mp, OF m1] m1 h A s show ?thesis by simp
qed

section \<open>What \<^verbatim>\<open>list\<close> offers\<close>

lemma readdir_stage [stage]:
  "fst (readdir p w) =
     (case lookup (files w) p of
        None \<Rightarrow> Inl (fsError ''ENOENT'' p)
      | Some (File c) \<Rightarrow> Inl (fsError ''ENOTDIR'' p)
      | Some (Dir ds) \<Rightarrow> Inr (map fst ds))"
  "snd (readdir p w) = w"
  by (simp_all add: readdir_def split: option.splits node.splits)

lemma prompts_stage [stage]:
  "files (snd (prompts env choices w)) = files w"
  "spinner (snd (prompts env choices w)) = spinner w"
  "clones (snd (prompts env choices w)) = clones w"
  "console (snd (prompts env choices w)) = console w"
  "prompted (snd (prompts env choices w)) = prompted w @ [choices]"
  by (simp_all add: prompts_def)

lemma filterE_kept:
  "filterE keep xs = Inr ys \<Longrightarrow> y \<in> set ys \<Longrightarrow> keep y = Inr True"
proof (induction xs arbitrary: ys)
  case Nil
  then show ?case by simp
next
  case (Cons x xs)
  from Cons.prems(1) obtain b zs where b: "keep x = Inr b" "filterE keep xs = Inr zs"
    "ys = (if b then x # zs else zs)"
    by (auto split: sum.splits)
  with Cons.prems(2) Cons.IH[OF b(2)] show ?case
    by (cases b) auto
qed

lemma filterE_cong:
  "(\<And>x. x \<in> set xs \<Longrightarrow> keep x = keep' x) \<Longrightarrow> filterE keep xs = filterE keep' xs"
  by (induction xs) (simp_all split: sum.splits)

lemma isComponent_kept:
  "isComponent es d name = Inr True \<Longrightarrow>
   \<not> prefix ''.'' name \<and> name \<noteq> ''styles'' \<and> name \<noteq> ''package.json''
   \<and> name \<noteq> ''node_modules''"
  by (simp add: isComponent_def split: if_splits)

lemma filtered_components_only:
  "filterE (isComponent es d) items = Inr components \<Longrightarrow> components_only components"
  unfolding components_only_def
  using filterE_kept[of "isComponent es d" items components] isComponent_kept[of es d]
  by blast

lemma hoare_assume:
  assumes "C \<Longrightarrow> hoare P m S E"
  shows "hoare (\<lambda>w. C \<and> P w) m S E"
  using assms by (cases C) (simp_all add: hoare_def)

lemma hoare_case_option:
  assumes "hoare P a S E" and "\<And>x. hoare P (f x) S E"
  shows "hoare P (case opt of None \<Rightarrow> a | Some x \<Rightarrow> f x) S E"
  using assms by (cases opt) simp_all

lemma prompted_kept:
  "hoare (\<lambda>w. \<forall>cs \<in> set (prompted w). components_only cs) (ret x)
     (\<lambda>x w. \<forall>cs \<in> set (prompted w). components_only cs)
     (\<lambda>e w. \<forall>cs \<in> set (prompted w). components_only cs)"
  "hoare (\<lambda>w. \<forall>cs \<in> set (prompted w). components_only cs) (spin s)
     (\<lambda>x w. \<forall>cs \<in> set (prompted w). components_only cs)
     (\<lambda>e w. \<forall>cs \<in> set (prompted w). components_only cs)"
  "hoare (\<lambda>w. \<forall>cs \<in> set (prompted w). components_only cs) (ensureDir p)
     (\<lambda>x w. \<forall>cs \<in> set (prompted w). components_only cs)
     (\<lambda>e w. \<forall>cs \<in> set (prompted w). components_only cs)"
  "hoare (\<lambda>w. \<forall>cs \<in> set (prompted w). components_only cs) (copy src dest)
     (\<lambda>x w. \<forall>cs \<in> set (prompted w). components_only cs)
     (\<lambda>e w. \<forall>cs \<in> set (prompted w). components_only cs)"
  "hoare (\<lambda>w. \<forall>cs \<in> set (prompted w). components_only cs) (mergeStyles g cp)
     (\<lambda>x w. \<forall>cs \<in> set (prompted w). components_only cs)
     (\<lambda>e w. \<forall>cs \<in> set (prompted w). components_only cs)"
  "hoare (\<lambda>w. \<forall>cs \<in> set (prompted w). components_only cs) (git_clone env dest)
     (\<lambda>x w. \<forall>cs \<in> set (prompted w). components_only cs)
     (\<lambda>e w. \<forall>cs \<in> set (prompted w). components_only cs)"
  "hoare (\<lambda>w. \<forall>cs \<in> set (prompted w). components_only cs) (readdir p)
     (\<lambda>x w. \<forall>cs \<in> set (prompted w). components_only cs)
     (\<lambda>e w. \<forall>cs \<in> set (prompted w). components_only cs)"
  "hoare (\<lambda>w. \<forall>cs \<in> set (prompted w). components_only cs) (copy_slash slash src dest)
     (\<lambda>x w. \<forall>cs \<in> set (prompted w). components_only cs)
     (\<lambda>e w. \<forall>cs \<in> set (prompted w). components_only cs)"
  by (simp_all add: hoare_def ensureDir_fields copy_fields mergeStyles_fields git_clone_fields
        spin_stage ret_stage spun_fields readdir_stage(2) copy_slash_fields)

lemma list_src_tail:
  assumes "components_only components"
  shows "hoare (\<lambda>w. \<forall>cs \<in> set (prompted w). components_only cs)
     (bnd (spin Stop) (\<lambda>u3.
          if length components = 0
          then spin (Info ''No components available'')
          else
            bnd (prompts env components) (\<lambda>choice.
              case choice of
                None \<Rightarrow> ret ()
              | Some component \<Rightarrow>
                  if component = [] then ret ()
                  else
                    bnd (ensureDir [''src'', ''components'']) (\<lambda>u4.
                    bnd (copy_slash (slashed component)
                           (join (TEMP_DIR @ [''packages'', ''components'']) component)
                           (join [''src'', ''components''] component)) (\<lambda>u5.
                    bnd (mergeStyles globalStylePath_src
                           (join (TEMP_DIR @ [''packages'', ''components'']) component)) (\<lambda>u6.
                    spin (Succeed (''Successfully added '' @ component
                                     @ '' component to src/components/'' @ component))))))))
     (\<lambda>x w. \<forall>cs \<in> set (prompted w). components_only cs)
     (\<lambda>e w. \<forall>cs \<in> set (prompted w). components_only cs)"
proof -
  have ask: "hoare (\<lambda>w. \<forall>cs \<in> set (prompted w). components_only cs) (prompts env components)
     (\<lambda>x w. \<forall>cs \<in> set (prompted w). components_only cs)
     (\<lambda>e w. \<forall>cs \<in> set (prompted w). components_only cs)"
    using assms by (simp add: hoare_def prompts_stage(5))
  show ?thesis
    by (intro hoare_bnd[OF prompted_kept(2)] hoare_if prompted_kept hoare_bnd[OF ask]
          hoare_case_option hoare_bnd[OF prompted_kept(3)] hoare_bnd[OF prompted_kept(8)]
          hoare_bnd[OF prompted_kept(5)])
qed

lemma list_src_try_offers:
  "hoare (\<lambda>w. \<forall>cs \<in> set (prompted w). components_only cs)
     (list_src_try env)
     (\<lambda>x w. \<forall>cs \<in> set (prompted w). components_only cs)
     (\<lambda>e w. \<forall>cs \<in> set (prompted w). components_only cs)"
  unfolding list_src_try_def Let_def
  apply (rule hoare_bnd[OF prompted_kept(3)])
  apply (rule hoare_bnd[OF prompted_kept(6)])
  apply (rule hoare_bnd[OF prompted_kept(7)])
  apply (rule hoare_bnd[where R="\<lambda>components w. components_only components
           \<and> (\<forall>cs \<in> set (prompted w). components_only cs)"])
   apply (simp add: hoare_def filtered_components_only)
  apply (rule hoare_assume)
  apply (erule list_src_tail)
  done

lemma list_src_offers_components_only:
  assumes "prompted w = []" and "cs \<in> set (prompted (list_src env w))"
  shows "components_only cs"
proof -
  let ?w0 = "spun (Start ''Fetching components...'') w"
  have p0: "\<forall>cs \<in> set (prompted ?w0). components_only cs"
    using assms(1) by (simp add: spun_fields)
  have after: "\<forall>cs \<in> set (prompted (snd (list_src_try env ?w0))). components_only cs"
  proof (cases "fst (list_src_try env ?w0)")
    case (Inl e)
    from hoare_failed[OF list_src_try_offers p0 Inl] show ?thesis .
  next
    case (Inr x)
    from hoare_returned[OF list_src_try_offers p0 Inr] show ?thesis .
  qed
  have "prompted (list_src env w) = prompted (snd (list_src_try env ?w0))"
    by (cases "fst (list_src_try env ?w0)")
       (simp_all add: list_src_def split_beta cleanupTemp_prompted spun_fields)
  with after assms(2) show ?thesis by simp
qed

lemma isComponent_fetched:
  assumes "\<And>r. lookup es (''.solo-ui-temp'' # r) = lookup repo r"
  shows "isComponent es [''.solo-ui-temp'', ''packages'', ''components''] name =
         (case isComponent repo [''packages'', ''components''] name of
            Inl e \<Rightarrow> Inl (fsError ''ENOENT'' [''.solo-ui-temp'', ''packages'', ''components'', name])
          | Inr b \<Rightarrow> Inr b)"
  using assms[of "[''packages'', ''components'', name]"]
  by (simp add: isComponent_def statIsDirectory_def split: option.splits node.splits)

lemma filterE_fetched:
  assumes "\<And>r. lookup es (''.solo-ui-temp'' # r) = lookup repo r"
      and "filterE (isComponent repo [''packages'', ''components'']) items = Inr components"
  shows "filterE (isComponent es [''.solo-ui-temp'', ''packages'', ''components'']) items =
         Inr components"
  using assms(2)
proof (induction items arbitrary: components)
  case Nil
  then show ?case by simp
next
  case (Cons x xs)
  from Cons.prems obtain b zs where b: "isComponent repo [''packages'', ''components''] x = Inr b"
    "filterE (isComponent repo [''packages'', ''components'']) xs = Inr zs"
    "components = (if b then x # zs else zs)"
    by (auto split: sum.splits)
  from isComponent_fetched[of es repo x, OF assms(1)] b(1)
  have "isComponent es [''.solo-ui-temp'', ''packages'', ''components''] x = Inr b" by simp
  with Cons.IH[OF b(2)] b(3) show ?case by simp
qed

lemma list_src_no_components:
  assumes scratch: "lookup (files w) TEMP_DIR = None \<or> lookup (files w) TEMP_DIR = Some (Dir [])"
      and fetched: "remote env = Inr repo"
      and root: "lookup repo [''packages'', ''components''] = Some (Dir ds)"
      and none: "filterE (isComponent repo [''packages'', ''components'']) (map fst ds) = Inr []"
  shows "spinner (list_src env w) =
           spinner w @ [Start ''Fetching components...'', Stop, Info ''No components available'']"
    and "prompted (list_src env w) = prompted w"
    and "\<not> prefix TEMP_DIR q \<Longrightarrow> q \<noteq> [] \<Longrightarrow>
         lookup (files (list_src env w)) q = lookup (files w) q"
proof -
  let ?w0 = "spun (Start ''Fetching components...'') w"
  let ?w1 = "snd (ensureDir TEMP_DIR ?w0)"
  let ?w2 = "snd (git_clone env TEMP_DIR ?w1)"
  have s0: "lookup (files ?w0) TEMP_DIR = None \<or> lookup (files ?w0) TEMP_DIR = Some (Dir [])"
    using scratch by (simp add: spun_fields)
  have e: "fst (ensureDir TEMP_DIR ?w0) = Inr ()"
    using s0 by (intro ensureDir_top) auto
  have t1: "lookup (files ?w1) TEMP_DIR = Some (Dir [])"
    using s0 ensureDir_at[OF e] by auto
  have c: "fst (git_clone env TEMP_DIR ?w1) = Inr ()"
    using t1 fetched by (simp add: git_clone_fst)
  have scratch_copy: "lookup (files ?w2) (''.solo-ui-temp'' # r) = lookup repo r" for r
    by (rule git_clone_fetched[OF c fetched])
  have d: "fst (readdir [''.solo-ui-temp'', ''packages'', ''components''] ?w2) = Inr (map fst ds)"
    using scratch_copy[of "[''packages'', ''components'']"] root by (simp add: readdir_stage)
  have f: "filterE (isComponent (files ?w2) [''.solo-ui-temp'', ''packages'', ''components''])
             (map fst ds) = Inr []"
    by (rule filterE_fetched[OF scratch_copy none])
  have body: "list_src_try env ?w0 =
      (Inr (), spun (Info ''No components available'') (spun Stop ?w2))"
    by (rule prod_eqI)
       (simp_all add: list_src_try_def Let_def bnd_alt e c d f readdir_stage(2) spin_stage)
  have cmd: "list_src env w =
      cleanupTemp env (spun (Info ''No components available'') (spun Stop ?w2))"
    by (simp add: list_src_def body)
  show "spinner (list_src env w) =
           spinner w @ [Start ''Fetching components...'', Stop, Info ''No components available'']"
    by (simp add: cmd cleanupTemp_spinner spun_fields git_clone_fields ensureDir_fields)
  show "prompted (list_src env w) = prompted w"
    by (simp add: cmd cleanupTemp_prompted spun_fields git_clone_fields ensureDir_fields)
  show "lookup (files (list_src env w)) q = lookup (files w) q"
    if "\<not> prefix TEMP_DIR q" "q \<noteq> []"
  proof -
    from that have "\<not> prefix q TEMP_DIR" by (cases q) auto
    with that show ?thesis
      by (simp add: cmd cleanupTemp_frame spun_fields git_clone_frame ensureDir_frame)
  qed
qed

text \<open>
  C7. The \<^verbatim>\<open>list\<close> of the second file filters what \<^verbatim>\<open>readdir\<close> returns, and every list of
  choices it opens the prompt with is free of hidden entries, \<^verbatim>\<open>styles\<close>, \<^verbatim>\<open>package.json\<close>
  and \<^verbatim>\<open>node_modules\<close> (\<open>list_src_offers_components_only\<close>). The \<^verbatim>\<open>list\<close> of
  \<^verbatim>\<open>packages/cli/src/index.ts\<close> passes the result of \<^verbatim>\<open>readdir\<close> to the prompt as it is:
  on a catalog root that holds such entries it offers all of them, where the other offers
  the one component.
\<close>

theorem list_cli_offers_everything:
  "prompted (list_cli (online cluttered_catalog) node_project) =
     [[''.DS_Store'', ''button'', ''node_modules'', ''package.json'', ''styles'']]
   \<and> prompted (list_src (online cluttered_catalog) node_project) = [[''button'']]"
  by code_simp

text \<open>
  C8. When the filter leaves no component, the \<^verbatim>\<open>list\<close> of the second file tells the spinner
  \<^verbatim>\<open>No components available\<close>, opens no prompt, installs nothing and reports no failure
  (\<open>list_src_no_components\<close>). The \<^verbatim>\<open>list\<close> of \<^verbatim>\<open>packages/cli/src/index.ts\<close> has neither
  the filter nor the test for an empty list: on a catalog root with only the styles
  directory and the manifest it opens the prompt with these two entries and prints no such
  message.
\<close>

theorem list_cli_prompts_without_components:
  "filterE (isComponent bare_catalog [''packages'', ''components''])
      [''styles'', ''package.json''] = Inr []
   \<and> prompted (list_cli (online bare_catalog) node_project) = [[''styles'', ''package.json'']]
   \<and> spinner (list_cli (online bare_catalog) node_project) =
       [Start ''Fetching components...'', Stop]
   \<and> prompted (list_src (online bare_catalog) node_project) = []
   \<and> spinner (list_src (online bare_catalog) node_project) =
       [Start ''Fetching components...'', Stop, Info ''No components available'']"
  by code_simp

end
